theory Spec2Isabelle
  imports Main "HOL-Library.AList"
begin

section \<open>Strings\<close>

text \<open>
  Python strings are modelled as \<open>string\<close> (lists of 8-bit characters), read as ASCII
  text. \<open>str.lower\<close>, \<open>str.upper\<close> and \<open>str.strip\<close> are modelled on ASCII: letters
  \<open>A\<close>..\<open>Z\<close> and \<open>a\<close>..\<open>z\<close> are mapped onto each other, every other character is kept,
  and the whitespace removed by \<open>strip\<close> is the ASCII whitespace of Python
  (codes 9..13, 28..32).
\<close>

definition lower_char :: "char \<Rightarrow> char" where
  "lower_char c =
     (let n = (of_char c :: nat) in if 65 \<le> n \<and> n \<le> 90 then char_of (n + 32) else c)"

definition upper_char :: "char \<Rightarrow> char" where
  "upper_char c =
     (let n = (of_char c :: nat) in if 97 \<le> n \<and> n \<le> 122 then char_of (n - 32) else c)"

definition str_lower :: "string \<Rightarrow> string" where
  "str_lower s = map lower_char s"

definition str_upper :: "string \<Rightarrow> string" where
  "str_upper s = map upper_char s"

definition is_space :: "char \<Rightarrow> bool" where
  "is_space c = (let n = (of_char c :: nat) in (9 \<le> n \<and> n \<le> 13) \<or> (28 \<le> n \<and> n \<le> 32))"

definition str_strip :: "string \<Rightarrow> string" where
  "str_strip s = rev (dropWhile is_space (rev (dropWhile is_space s)))"

fun startswith :: "string \<Rightarrow> string \<Rightarrow> bool" where
  "startswith s [] = True"
| "startswith [] (p # ps) = False"
| "startswith (c # cs) (p # ps) = (c = p \<and> startswith cs ps)"

text \<open>\<open>str(n)\<close> for a Python integer: decimal digits, with a leading minus sign.\<close>

definition digit_char :: "nat \<Rightarrow> char" where
  "digit_char d = char_of (48 + d)"

fun str_nat :: "nat \<Rightarrow> string" where
  "str_nat n = (if n < 10 then [digit_char n] else str_nat (n div 10) @ [digit_char (n mod 10)])"

declare str_nat.simps [simp del]

definition str_int :: "int \<Rightarrow> string" where
  "str_int i = (if i < 0 then CHR ''-'' # str_nat (nat (- i)) else str_nat (nat i))"

section \<open>Configuration (src/db/config/database_config.py)\<close>

text \<open>
  \<open>DatabaseConfig.REGION_MAPPING\<close>, a dict literal, as an association list in the
  order of the source; \<open>dict.get\<close> is \<open>map_of\<close>.
\<close>

definition REGION_MAPPING :: "(string \<times> int) list" where
  "REGION_MAPPING =
     [(''north_america'', 1),
      (''south_america'', 1),
      (''europe'', 2),
      (''africa'', 2),
      (''asia'', 3),
      (''oceania'', 3)]"

section \<open>Errors\<close>

text \<open>
  The exceptions that travel through the connection manager. \<open>ValueError\<close> is raised by
  the manager itself and carries its message; the others come out of the database driver:
  \<open>PoolError\<close> from a pool that cannot hand out a connection, \<open>OperationalError\<close> for a
  failure of the node or of the transport, \<open>InterfaceError\<close> for a call on a session that
  is closed, \<open>ProgrammingError\<close> for a malformed statement or a fetch without a result
  set, \<open>IntegrityError\<close> for a violated constraint.
\<close>

datatype error =
    ValueError string
  | PoolError
  | OperationalError
  | InterfaceError
  | ProgrammingError
  | IntegrityError

section \<open>Region to shard (PostgresConnectionManager._get_shard_id)\<close>

text \<open>
  \<^verbatim>\<open>
  shard_id = DatabaseConfig.REGION_MAPPING.get(region.lower())
  if not shard_id:
      raise ValueError(f"Unknown region: {region}")
  return shard_id
  \<close>
  \<open>not shard_id\<close> holds for \<open>None\<close> and for the integer 0.
\<close>

definition get_shard_id :: "string \<Rightarrow> error + int" where
  "get_shard_id region =
     (case map_of REGION_MAPPING (str_lower region) of
        None \<Rightarrow> Inl (ValueError (''Unknown region: '' @ region))
      | Some shard_id \<Rightarrow>
          if shard_id = 0 then Inl (ValueError (''Unknown region: '' @ region))
          else Inr shard_id)"

section \<open>The database driver (psycopg2), as the manager uses it\<close>

text \<open>
  The driver is not part of the repository. Its objects are modelled by the state that
  the manager's code can observe through the calls it makes, after the behaviour of
  psycopg2 (2.8 and later).

  A connection is a session on one node: \<open>committed\<close> is the state of the node's data
  that other sessions see, \<open>pending\<close> the state inside the session's open transaction,
  \<open>closed\<close> tells that the session is lost (\<open>conn.closed\<close>). On an open session
  \<open>commit\<close> publishes the pending state and \<open>rollback\<close> discards it; on a closed
  session \<open>conn.commit()\<close>, \<open>conn.rollback()\<close> and \<open>conn.cursor()\<close> raise
  \<open>InterfaceError\<close>.
\<close>

datatype pyval = PyNone | PyInt int | PyStr string | PyBool bool | PyList "pyval list"

type_synonym params = "pyval list option"

record 'db conn =
  conn_id :: nat
  closed :: bool
  committed :: 'db
  pending :: 'db

definition commit :: "'db conn \<Rightarrow> (error + unit) \<times> 'db conn" where
  "commit c =
     (if closed c then (Inl InterfaceError, c) else (Inr (), c\<lparr>committed := pending c\<rparr>))"

definition rollback :: "'db conn \<Rightarrow> (error + unit) \<times> 'db conn" where
  "rollback c =
     (if closed c then (Inl InterfaceError, c) else (Inr (), c\<lparr>pending := committed c\<rparr>))"

definition conn_cursor :: "'db conn \<Rightarrow> error + unit" where
  "conn_cursor c = (if closed c then Inl InterfaceError else Inr ())"

text \<open>
  What a statement or a stored procedure does on a node is a parameter of the model. It
  maps the state seen by the transaction to a failure, which is the exception raised and
  whether the failure loses the session (a failure of the transport does), or to the new
  state and the result set: the rows as lists of column name and value, \<open>None\<close> when the
  statement yields no result set, as for DDL.
\<close>

type_synonym raw_row = "(string \<times> pyval) list"

record 'db engine =
  stmt :: "string \<Rightarrow> params \<Rightarrow> 'db \<Rightarrow> (error \<times> bool) + ('db \<times> raw_row list option)"
  proc :: "string \<Rightarrow> params \<Rightarrow> 'db \<Rightarrow> (error \<times> bool) + ('db \<times> raw_row list option)"

text \<open>
  A cursor holds the result set of the last statement. \<open>cursor.execute\<close> and
  \<open>cursor.callproc\<close> change the connection's pending state; a statement that fails leaves
  it as it was, and closes the session when the failure loses it.
\<close>

type_synonym cursor = "raw_row list option"

definition cursor_execute ::
  "'db engine \<Rightarrow> 'db conn \<Rightarrow> string \<Rightarrow> params \<Rightarrow> (error + cursor) \<times> 'db conn" where
  "cursor_execute E c query ps =
     (case stmt E query ps (pending c) of
        Inl (e, lost) \<Rightarrow> (Inl e, c\<lparr>closed := lost\<rparr>)
      | Inr (db, res) \<Rightarrow> (Inr res, c\<lparr>pending := db\<rparr>))"

definition cursor_callproc ::
  "'db engine \<Rightarrow> 'db conn \<Rightarrow> string \<Rightarrow> params \<Rightarrow> (error + cursor) \<times> 'db conn" where
  "cursor_callproc E c name ps =
     (case proc E name ps (pending c) of
        Inl (e, lost) \<Rightarrow> (Inl e, c\<lparr>closed := lost\<rparr>)
      | Inr (db, res) \<Rightarrow> (Inr res, c\<lparr>pending := db\<rparr>))"

fun cursor_executemany ::
  "'db engine \<Rightarrow> 'db conn \<Rightarrow> string \<Rightarrow> pyval list list \<Rightarrow> (error + unit) \<times> 'db conn" where
  "cursor_executemany E c query [] = (Inr (), c)"
| "cursor_executemany E c query (ps # rest) =
     (case cursor_execute E c query (Some ps) of
        (Inl e, c') \<Rightarrow> (Inl e, c')
      | (Inr _, c') \<Rightarrow> cursor_executemany E c' query rest)"

text \<open>
  The rows of a \<open>RealDictCursor\<close> are \<open>RealDictRow\<close> dicts. The driver builds a row
  from an empty dict: it stores the list of column names under the class \<open>RealDictRow\<close>
  as a key, sets the columns one by one (a name that occurs twice keeps its first
  position and its last value) and deletes that key when it sets the last column. A row
  without columns therefore keeps the key, with the empty list: no row that the cursor
  returns is an empty dict.
\<close>

datatype dict_key = Column string | RealDictRowClass

type_synonym row = "(dict_key \<times> pyval) list"

definition real_dict_row :: "raw_row \<Rightarrow> row" where
  "real_dict_row cols =
     (if cols = [] then [(RealDictRowClass, PyList [])]
      else fold (\<lambda>(name, v). AList.update (Column name) v) cols [])"

text \<open>
  \<open>fetchone\<close> and \<open>fetchall\<close> of a \<open>RealDictCursor\<close>; they raise \<open>ProgrammingError\<close>
  when there is no result set.
\<close>

definition fetchone :: "cursor \<Rightarrow> error + row option" where
  "fetchone cur =
     (case cur of
        None \<Rightarrow> Inl ProgrammingError
      | Some [] \<Rightarrow> Inr None
      | Some (r # _) \<Rightarrow> Inr (Some (real_dict_row r)))"

definition fetchall :: "cursor \<Rightarrow> error + row list" where
  "fetchall cur =
     (case cur of None \<Rightarrow> Inl ProgrammingError | Some rs \<Rightarrow> Inr (map real_dict_row rs))"

text \<open>
  A \<open>SimpleConnectionPool\<close> keeps the sessions that wait for a lease (\<open>idle\<close>, last
  returned first) and the identifiers of the sessions that are leased (\<open>used\<close>);
  \<open>connect\<close> is the outcome of opening the next session to the node, \<open>opened\<close> the
  number of sessions opened so far.

  \<open>getconn\<close> leases a waiting session; when none waits it raises \<open>PoolError\<close> if
  \<open>maxconn\<close> sessions are leased, and opens a new session otherwise. \<open>putconn\<close> ends the
  lease: a closed session is dropped; an open one is rolled back and kept while fewer than
  \<open>minconn\<close> sessions wait, and closed otherwise. The manager builds every pool with
  \<open>minconn = 1\<close> and \<open>maxconn = POSTGRES_POOL_SIZE\<close>.
\<close>

record 'db pool =
  minconn :: nat
  maxconn :: nat
  idle :: "'db conn list"
  used :: "nat list"
  opened :: nat
  connect :: "nat \<Rightarrow> error + 'db conn"

definition getconn :: "'db pool \<Rightarrow> error + ('db conn \<times> 'db pool)" where
  "getconn p =
     (case idle p of
        c # cs \<Rightarrow> Inr (c, p\<lparr>idle := cs, used := conn_id c # used p\<rparr>)
      | [] \<Rightarrow>
          if length (used p) = maxconn p then Inl PoolError
          else
            (case connect p (opened p) of
               Inl e \<Rightarrow> Inl e
             | Inr c \<Rightarrow> Inr (c, p\<lparr>used := conn_id c # used p, opened := Suc (opened p)\<rparr>)))"

definition putconn :: "'db pool \<Rightarrow> 'db conn \<Rightarrow> 'db pool" where
  "putconn p c =
     p\<lparr>idle := (if length (idle p) < minconn p \<and> \<not> closed c
                then c\<lparr>pending := committed c\<rparr> # idle p else idle p),
       used := remove1 (conn_id c) (used p)\<rparr>"

section \<open>The connection manager (src/db/postgres_scripts/connection_manager.py)\<close>

text \<open>
  \<open>_master_pools : Dict[int, pool]\<close> and \<open>_slave_pools : Dict[int, List[pool]]\<close> are
  association lists in insertion order. The pools are objects held by the dicts: a call
  that changes a pool is an update of its entry.
\<close>

record 'db manager =
  master_pools :: "(int \<times> 'db pool) list"
  slave_pools :: "(int \<times> 'db pool list) list"

subsection \<open>get_connection\<close>

text \<open>
  The test of lines 92 and 115,
  \<^verbatim>\<open>read_only and shard_id in self._slave_pools and self._slave_pools[shard_id]\<close>,
  with the pool it selects when it holds: \<open>self._slave_pools[shard_id][0]\<close>, and the
  other slave pools of the shard.
\<close>

definition first_slave ::
  "'db manager \<Rightarrow> int \<Rightarrow> bool \<Rightarrow> ('db pool \<times> 'db pool list) option" where
  "first_slave mgr shard_id read_only =
     (if read_only then
        (case map_of (slave_pools mgr) shard_id of
           None \<Rightarrow> None
         | Some [] \<Rightarrow> None
         | Some (slave_pool # rest) \<Rightarrow> Some (slave_pool, rest))
      else None)"

text \<open>
  Lines 92 to 102, the body of \<open>try\<close> up to \<open>yield\<close>: the first slave pool of the shard
  when the test holds, the master pool otherwise; \<open>ValueError\<close> when the shard has no
  master pool. The result is the leased connection and the manager with the pool changed
  by \<open>getconn\<close>.
\<close>

definition acquire ::
  "'db manager \<Rightarrow> int \<Rightarrow> bool \<Rightarrow> (error + 'db conn) \<times> 'db manager" where
  "acquire mgr shard_id read_only =
     (case first_slave mgr shard_id read_only of
        Some (slave_pool, rest) \<Rightarrow>
          (case getconn slave_pool of
             Inl e \<Rightarrow> (Inl e, mgr)
           | Inr (c, slave_pool') \<Rightarrow>
               (Inr c,
                mgr\<lparr>slave_pools :=
                      AList.update shard_id (slave_pool' # rest) (slave_pools mgr)\<rparr>))
      | None \<Rightarrow>
          (case map_of (master_pools mgr) shard_id of
             None \<Rightarrow>
               (Inl (ValueError (''No master pool available for shard '' @ str_int shard_id)),
                mgr)
           | Some master_pool \<Rightarrow>
               (case getconn master_pool of
                  Inl e \<Rightarrow> (Inl e, mgr)
                | Inr (c, master_pool') \<Rightarrow>
                    (Inr c,
                     mgr\<lparr>master_pools :=
                           AList.update shard_id master_pool' (master_pools mgr)\<rparr>))))"

text \<open>
  Lines 113 to 119, the \<open>finally\<close> block for a connection that was leased: \<open>putconn\<close> on
  the first slave pool when the test holds, on the master pool otherwise, if the shard has
  one.
\<close>

definition release :: "'db manager \<Rightarrow> int \<Rightarrow> bool \<Rightarrow> 'db conn \<Rightarrow> 'db manager" where
  "release mgr shard_id read_only c =
     (case first_slave mgr shard_id read_only of
        Some (slave_pool, rest) \<Rightarrow>
          mgr\<lparr>slave_pools :=
                AList.update shard_id (putconn slave_pool c # rest) (slave_pools mgr)\<rparr>
      | None \<Rightarrow>
          (case map_of (master_pools mgr) shard_id of
             None \<Rightarrow> mgr
           | Some master_pool \<Rightarrow>
               mgr\<lparr>master_pools :=
                     AList.update shard_id (putconn master_pool c) (master_pools mgr)\<rparr>))"

text \<open>
  The \<open>except\<close> block of lines 107 to 111, and of lines 225 to 228, for the exception
  \<open>e\<close>:
  \<^verbatim>\<open>
  except Exception as e:
      conn.rollback()
      logger.error(...)
      raise
  \<close>
  When \<open>conn.rollback()\<close> raises, its exception propagates and \<open>raise\<close> is not reached.
\<close>

definition rollback_and_raise :: "error \<Rightarrow> 'db conn \<Rightarrow> (error + 'r) \<times> 'db conn" where
  "rollback_and_raise e c =
     (case rollback c of
        (Inl e', c') \<Rightarrow> (Inl e', c')
      | (Inr _, c') \<Rightarrow> (Inl e, c'))"

text \<open>
  Lines 104 to 111, from the outcome of the body of the \<open>with\<close> block: when the body
  returned, \<open>conn.commit()\<close>, inside the \<open>try\<close>; when the body or the commit raised, the
  \<open>except\<close> block. The result is what the \<open>with\<close> statement returns or raises, and the
  connection as the \<open>finally\<close> block finds it.
\<close>

definition finish :: "(error + 'r) \<times> 'db conn \<Rightarrow> (error + 'r) \<times> 'db conn" where
  "finish outcome =
     (case outcome of
        (Inl e, c1) \<Rightarrow> rollback_and_raise e c1
      | (Inr v, c1) \<Rightarrow>
          (case commit c1 of
             (Inl e, c2) \<Rightarrow> rollback_and_raise e c2
           | (Inr _, c2) \<Rightarrow> (Inr v, c2)))"

text \<open>
  The context manager, applied to the body of its \<open>with\<close> block. The body receives the
  connection and returns its result or the exception it raised, with the connection as it
  left it. When the region is unknown or no connection is leased, \<open>conn\<close> is \<open>None\<close>:
  nothing is rolled back or returned, and the exception propagates.
\<close>

definition get_connection ::
  "'db manager \<Rightarrow> string \<Rightarrow> bool \<Rightarrow> ('db conn \<Rightarrow> (error + 'r) \<times> 'db conn) \<Rightarrow>
   (error + 'r) \<times> 'db manager" where
  "get_connection mgr region read_only body =
     (case get_shard_id region of
        Inl e \<Rightarrow> (Inl e, mgr)
      | Inr shard_id \<Rightarrow>
          (case acquire mgr shard_id read_only of
             (Inl e, mgr1) \<Rightarrow> (Inl e, mgr1)
           | (Inr c, mgr1) \<Rightarrow>
               (case finish (body c) of
                  (r, c2) \<Rightarrow> (r, release mgr1 shard_id read_only c2))))"

subsection \<open>execute_query\<close>

text \<open>
  \<^verbatim>\<open>query.strip().upper().startswith(('INSERT', 'UPDATE', 'DELETE'))\<close>
\<close>

definition is_mutation :: "string \<Rightarrow> bool" where
  "is_mutation query =
     (let q = str_upper (str_strip query)
      in startswith q ''INSERT'' \<or> startswith q ''UPDATE'' \<or> startswith q ''DELETE'')"

text \<open>
  The value returned by \<open>execute_query\<close> and \<open>call_procedure\<close>: \<open>None\<close>, one row as a
  dict, or a list of rows as dicts.
\<close>

datatype query_result = RNone | RDict row | RList "row list"

text \<open>
  \<^verbatim>\<open>
  with self.get_connection(region, read_only) as conn:
      with conn.cursor(cursor_factory=RealDictCursor) as cursor:
          cursor.execute(query, params)
          if query.strip().upper().startswith(('INSERT', 'UPDATE', 'DELETE')):
              conn.commit()
              return None
          if fetch_one:
              result = cursor.fetchone()
              return dict(result) if result else None
          results = cursor.fetchall()
          return [dict(row) for row in results]
  \<close>
  \<open>result\<close> is \<open>None\<close> or a \<open>RealDictRow\<close>, a dict: the test \<open>if result\<close> fails for
  \<open>None\<close> and for an empty dict.
\<close>

definition execute_query_body ::
  "'db engine \<Rightarrow> string \<Rightarrow> params \<Rightarrow> bool \<Rightarrow> 'db conn \<Rightarrow> (error + query_result) \<times> 'db conn"
  where
  "execute_query_body E query ps fetch_one c =
     (case conn_cursor c of
        Inl e \<Rightarrow> (Inl e, c)
      | Inr _ \<Rightarrow>
          (case cursor_execute E c query ps of
             (Inl e, c1) \<Rightarrow> (Inl e, c1)
           | (Inr cur, c1) \<Rightarrow>
               if is_mutation query then
                 (case commit c1 of
                    (Inl e, c2) \<Rightarrow> (Inl e, c2)
                  | (Inr _, c2) \<Rightarrow> (Inr RNone, c2))
               else if fetch_one then
                 (case fetchone cur of
                    Inl e \<Rightarrow> (Inl e, c1)
                  | Inr result \<Rightarrow>
                      (case result of
                         None \<Rightarrow> (Inr RNone, c1)
                       | Some r \<Rightarrow> if r \<noteq> [] then (Inr (RDict r), c1) else (Inr RNone, c1)))
               else
                 (case fetchall cur of
                    Inl e \<Rightarrow> (Inl e, c1)
                  | Inr results \<Rightarrow> (Inr (RList results), c1))))"

definition execute_query ::
  "'db engine \<Rightarrow> 'db manager \<Rightarrow> string \<Rightarrow> string \<Rightarrow> params \<Rightarrow> bool \<Rightarrow> bool \<Rightarrow>
   (error + query_result) \<times> 'db manager" where
  "execute_query E mgr region query ps read_only fetch_one =
     get_connection mgr region read_only (execute_query_body E query ps fetch_one)"

subsection \<open>execute_many\<close>

text \<open>
  \<^verbatim>\<open>
  with self.get_connection(region, read_only=False) as conn:
      with conn.cursor() as cursor:
          cursor.executemany(query, params_list)
          conn.commit()
  \<close>
\<close>

definition execute_many_body ::
  "'db engine \<Rightarrow> string \<Rightarrow> pyval list list \<Rightarrow> 'db conn \<Rightarrow> (error + unit) \<times> 'db conn" where
  "execute_many_body E query params_list c =
     (case conn_cursor c of
        Inl e \<Rightarrow> (Inl e, c)
      | Inr _ \<Rightarrow>
          (case cursor_executemany E c query params_list of
             (Inl e, c1) \<Rightarrow> (Inl e, c1)
           | (Inr _, c1) \<Rightarrow> commit c1))"

definition execute_many ::
  "'db engine \<Rightarrow> 'db manager \<Rightarrow> string \<Rightarrow> string \<Rightarrow> pyval list list \<Rightarrow>
   (error + unit) \<times> 'db manager" where
  "execute_many E mgr region query params_list =
     get_connection mgr region False (execute_many_body E query params_list)"

subsection \<open>call_procedure\<close>

text \<open>
  \<^verbatim>\<open>
  with self.get_connection(region, read_only) as conn:
      with conn.cursor(cursor_factory=RealDictCursor) as cursor:
          cursor.callproc(procedure_name, params)
          try:
              results = cursor.fetchall()
              return [dict(row) for row in results]
          except psycopg2.ProgrammingError:
              conn.commit()
              return None
  \<close>
\<close>

definition call_procedure_body ::
  "'db engine \<Rightarrow> string \<Rightarrow> params \<Rightarrow> 'db conn \<Rightarrow> (error + query_result) \<times> 'db conn" where
  "call_procedure_body E procedure_name ps c =
     (case conn_cursor c of
        Inl e \<Rightarrow> (Inl e, c)
      | Inr _ \<Rightarrow>
          (case cursor_callproc E c procedure_name ps of
             (Inl e, c1) \<Rightarrow> (Inl e, c1)
           | (Inr cur, c1) \<Rightarrow>
               (case fetchall cur of
                  Inr results \<Rightarrow> (Inr (RList results), c1)
                | Inl ProgrammingError \<Rightarrow>
                    (case commit c1 of
                       (Inl e, c2) \<Rightarrow> (Inl e, c2)
                     | (Inr _, c2) \<Rightarrow> (Inr RNone, c2))
                | Inl e \<Rightarrow> (Inl e, c1))))"

definition call_procedure ::
  "'db engine \<Rightarrow> 'db manager \<Rightarrow> string \<Rightarrow> string \<Rightarrow> params \<Rightarrow> bool \<Rightarrow>
   (error + query_result) \<times> 'db manager" where
  "call_procedure E mgr region procedure_name ps read_only =
     get_connection mgr region read_only (call_procedure_body E procedure_name ps)"

subsection \<open>execute_transaction\<close>

text \<open>
  \<^verbatim>\<open>
  with self.get_connection(region, read_only=False) as conn:
      with conn.cursor() as cursor:
          try:
              for query, params in queries:
                  cursor.execute(query, params)
              conn.commit()
          except Exception as e:
              conn.rollback()
              logger.error(f"Transaction failed: {e}")
              raise
  \<close>
  \<open>run_queries\<close> is the \<open>for\<close> loop: it stops at the first statement that raises, with the
  connection as the statements before it, and the failure, left it.
\<close>

fun run_queries ::
  "'db engine \<Rightarrow> 'db conn \<Rightarrow> (string \<times> params) list \<Rightarrow> (error + unit) \<times> 'db conn" where
  "run_queries E c [] = (Inr (), c)"
| "run_queries E c ((query, ps) # rest) =
     (case cursor_execute E c query ps of
        (Inl e, c1) \<Rightarrow> (Inl e, c1)
      | (Inr _, c1) \<Rightarrow> run_queries E c1 rest)"

definition execute_transaction_body ::
  "'db engine \<Rightarrow> (string \<times> params) list \<Rightarrow> 'db conn \<Rightarrow> (error + unit) \<times> 'db conn" where
  "execute_transaction_body E queries c =
     (case conn_cursor c of
        Inl e \<Rightarrow> (Inl e, c)
      | Inr _ \<Rightarrow>
          (case run_queries E c queries of
             (Inl e, c1) \<Rightarrow> rollback_and_raise e c1
           | (Inr _, c1) \<Rightarrow>
               (case commit c1 of
                  (Inl e, c2) \<Rightarrow> rollback_and_raise e c2
                | (Inr _, c2) \<Rightarrow> (Inr (), c2))))"

definition execute_transaction ::
  "'db engine \<Rightarrow> 'db manager \<Rightarrow> string \<Rightarrow> (string \<times> params) list \<Rightarrow>
   (error + unit) \<times> 'db manager" where
  "execute_transaction E mgr region queries =
     get_connection mgr region False (execute_transaction_body E queries)"

subsection \<open>health_check\<close>

text \<open>
  The body of the two loops, for one pool:
  \<^verbatim>\<open>
  try:
      conn = master_pool.getconn()
      with conn.cursor() as cursor:
          cursor.execute("SELECT 1")
      master_pool.putconn(conn)
      health_status[...] = True
  except Exception as e:
      health_status[...] = False
  \<close>
  The result is the value stored in \<open>health_status\<close> and the pool as the calls left it.
  When \<open>conn.cursor()\<close> or \<open>cursor.execute\<close> raises, control passes to \<open>except\<close>:
  \<open>putconn\<close> is not reached.
\<close>

definition check_pool :: "'db engine \<Rightarrow> 'db pool \<Rightarrow> bool \<times> 'db pool" where
  "check_pool E p =
     (case getconn p of
        Inl e \<Rightarrow> (False, p)
      | Inr (c, p1) \<Rightarrow>
          (case conn_cursor c of
             Inl e \<Rightarrow> (False, p1)
           | Inr _ \<Rightarrow>
               (case cursor_execute E c ''SELECT 1'' None of
                  (Inl e, c1) \<Rightarrow> (False, p1)
                | (Inr _, c1) \<Rightarrow> (True, putconn p1 c1))))"

definition master_label :: "int \<Rightarrow> string" where
  "master_label shard_id = ''master_shard_'' @ str_int shard_id"

definition slave_label :: "int \<Rightarrow> nat \<Rightarrow> string" where
  "slave_label shard_id idx = ''slave_shard_'' @ str_int shard_id @ ''_'' @ str_nat idx"

text \<open>
  \<open>for shard_id, master_pool in self._master_pools.items()\<close>: the loop over the master
  pools, threading the \<open>health_status\<close> dict; \<open>health_status[k] = v\<close> is
  \<open>AList.update k v\<close>.
\<close>

fun check_masters ::
  "'db engine \<Rightarrow> (int \<times> 'db pool) list \<Rightarrow> (string \<times> bool) list \<Rightarrow>
   (int \<times> 'db pool) list \<times> (string \<times> bool) list" where
  "check_masters E [] health_status = ([], health_status)"
| "check_masters E ((shard_id, master_pool) # rest) health_status =
     (case check_pool E master_pool of
        (ok, master_pool') \<Rightarrow>
          (case check_masters E rest (AList.update (master_label shard_id) ok health_status) of
             (rest', health_status') \<Rightarrow> ((shard_id, master_pool') # rest', health_status')))"

text \<open>\<open>for idx, slave_pool in enumerate(slave_pools)\<close>, from index \<open>idx\<close> on.\<close>

fun check_slave_list ::
  "'db engine \<Rightarrow> int \<Rightarrow> nat \<Rightarrow> 'db pool list \<Rightarrow> (string \<times> bool) list \<Rightarrow>
   'db pool list \<times> (string \<times> bool) list" where
  "check_slave_list E shard_id idx [] health_status = ([], health_status)"
| "check_slave_list E shard_id idx (slave_pool # rest) health_status =
     (case check_pool E slave_pool of
        (ok, slave_pool') \<Rightarrow>
          (case check_slave_list E shard_id (Suc idx) rest
                  (AList.update (slave_label shard_id idx) ok health_status) of
             (rest', health_status') \<Rightarrow> (slave_pool' # rest', health_status')))"

text \<open>\<open>for shard_id, slave_pools in self._slave_pools.items()\<close>\<close>

fun check_slaves ::
  "'db engine \<Rightarrow> (int \<times> 'db pool list) list \<Rightarrow> (string \<times> bool) list \<Rightarrow>
   (int \<times> 'db pool list) list \<times> (string \<times> bool) list" where
  "check_slaves E [] health_status = ([], health_status)"
| "check_slaves E ((shard_id, pools) # rest) health_status =
     (case check_slave_list E shard_id 0 pools health_status of
        (pools', health_status1) \<Rightarrow>
          (case check_slaves E rest health_status1 of
             (rest', health_status2) \<Rightarrow> ((shard_id, pools') # rest', health_status2)))"

definition health_check :: "'db engine \<Rightarrow> 'db manager \<Rightarrow> (string \<times> bool) list \<times> 'db manager"
  where
  "health_check E mgr =
     (case check_masters E (master_pools mgr) [] of
        (masters', health_status1) \<Rightarrow>
          (case check_slaves E (slave_pools mgr) health_status1 of
             (slaves', health_status2) \<Rightarrow>
               (health_status2, mgr\<lparr>master_pools := masters', slave_pools := slaves'\<rparr>)))"

section \<open>The health report (src/db/health_check.py)\<close>

text \<open>
  \<open>DatabaseHealthCheck.check_postgres_health\<close>, without its printing:
  \<^verbatim>\<open>
  health_status = self.pg_manager.health_check()
  total_nodes = len(health_status)
  healthy_nodes = sum(1 for status in health_status.values() if status)
  return {'total_nodes': total_nodes, 'healthy_nodes': healthy_nodes,
          'all_healthy': healthy_nodes == total_nodes, 'details': health_status}
  \<close>
\<close>

record health_report =
  total_nodes :: nat
  healthy_nodes :: nat
  all_healthy :: bool
  details :: "(string \<times> bool) list"

definition check_postgres_health :: "'db engine \<Rightarrow> 'db manager \<Rightarrow> health_report \<times> 'db manager"
  where
  "check_postgres_health E mgr =
     (case health_check E mgr of
        (health_status, mgr') \<Rightarrow>
          (let total = length health_status;
               healthy = length (filter snd health_status)
           in (\<lparr>total_nodes = total, healthy_nodes = healthy,
                all_healthy = (healthy = total), details = health_status\<rparr>, mgr')))"

section \<open>A small engine and a manager over it\<close>

text \<open>
  A node of the example is a flag (the node answers) and a table of integers. The engine
  knows a handful of statements; on a node that does not answer every statement raises
  \<open>OperationalError\<close> and loses the session, and so does, on any node, the statement by
  which a session terminates its own backend. A pool of the example is built as the
  manager builds it, with one waiting session; the sessions it opens later get fresh
  identifiers, and none can be opened to a node that does not answer. The manager has
  three master pools and slave pools for the shards 1 and 3; the first slave of shard 3
  does not answer.
\<close>

definition demo_stmt ::
  "string \<Rightarrow> params \<Rightarrow> bool \<times> int list \<Rightarrow>
   (error \<times> bool) + ((bool \<times> int list) \<times> raw_row list option)" where
  "demo_stmt query ps db =
     (if \<not> fst db then Inl (OperationalError, True)
      else if query = ''SELECT pg_terminate_backend(pg_backend_pid())'' then
        Inl (OperationalError, True)
      else if query = ''SELECT 1'' then Inr (db, Some [[(''?column?'', PyInt 1)]])
      else if query = ''SELECT n FROM t'' then
        Inr (db, Some (map (\<lambda>n. [(''n'', PyInt n)]) (snd db)))
      else if query = ''SELECT FROM t'' then Inr (db, Some (map (\<lambda>n. []) (snd db)))
      else if query = ''insert into t values (%s)'' then
        (case ps of
           Some [PyInt n] \<Rightarrow> Inr ((fst db, snd db @ [n]), None)
         | _ \<Rightarrow> Inl (ProgrammingError, False))
      else if query = ''CREATE TABLE u ()'' then Inr (db, None)
      else Inl (ProgrammingError, False))"

definition demo_engine :: "(bool \<times> int list) engine" where
  "demo_engine = \<lparr>stmt = demo_stmt, proc = (\<lambda>name ps db. Inr (db, None))\<rparr>"

definition demo_conn :: "nat \<Rightarrow> bool \<Rightarrow> int list \<Rightarrow> (bool \<times> int list) conn" where
  "demo_conn i up t = \<lparr>conn_id = i, closed = False, committed = (up, t), pending = (up, t)\<rparr>"

definition demo_connect :: "nat \<Rightarrow> bool \<Rightarrow> int list \<Rightarrow> nat \<Rightarrow> error + (bool \<times> int list) conn"
  where
  "demo_connect i up t k = (if up then Inr (demo_conn (i + 10 * k) up t) else Inl OperationalError)"

definition demo_leased :: "nat \<Rightarrow> bool \<Rightarrow> int list \<Rightarrow> (bool \<times> int list) pool" where
  "demo_leased i up t =
     \<lparr>minconn = 1, maxconn = 10, idle = [], used = [i], opened = 1,
      connect = demo_connect i up t\<rparr>"

definition demo_pool :: "nat \<Rightarrow> bool \<Rightarrow> int list \<Rightarrow> (bool \<times> int list) pool" where
  "demo_pool i up t =
     \<lparr>minconn = 1, maxconn = 10, idle = [demo_conn i up t], used = [], opened = 1,
      connect = demo_connect i up t\<rparr>"

definition demo_manager :: "(bool \<times> int list) manager" where
  "demo_manager =
     \<lparr>master_pools = [(1, demo_pool 1 True [10]), (2, demo_pool 2 True []), (3, demo_pool 3 True [7])],
      slave_pools = [(1, [demo_pool 4 True [10]]), (3, [demo_pool 5 False [7], demo_pool 6 True [7]])]\<rparr>"

definition demo_insert :: "int \<Rightarrow> string \<times> params" where
  "demo_insert n = (''insert into t values (%s)'', Some [PyInt n])"

section \<open>The effect of a sequence of statements\<close>

text \<open>
  What a sequence of statements does to the state seen by one transaction, in the
  engine's semantics: each statement runs on the state the one before it left, and the
  first statement that fails ends the run with its failure. This is the reference against
  which the \<open>for\<close> loop of \<open>execute_transaction\<close> is compared.
\<close>

fun run_on_db ::
  "'db engine \<Rightarrow> 'db \<Rightarrow> (string \<times> params) list \<Rightarrow> (error \<times> bool) + 'db" where
  "run_on_db E db [] = Inr db"
| "run_on_db E db ((query, ps) # rest) =
     (case stmt E query ps db of
        Inl f \<Rightarrow> Inl f
      | Inr (db', _) \<Rightarrow> run_on_db E db' rest)"

section \<open>The entries expected of a health check\<close>

text \<open>
  What \<open>check_all\<close> is to report, in the words of the specification: one entry for every
  master pool, labelled with its shard, then one entry for every slave pool, labelled with
  its shard and its position in the shard's list; the value of an entry is the outcome of
  the probe of that pool alone. \<open>health_check\<close> is compared with this list.
\<close>

definition master_entry :: "'db engine \<Rightarrow> int \<times> 'db pool \<Rightarrow> string \<times> bool" where
  "master_entry E = (\<lambda>(shard_id, p). (master_label shard_id, fst (check_pool E p)))"

definition slave_entries :: "'db engine \<Rightarrow> int \<times> 'db pool list \<Rightarrow> (string \<times> bool) list" where
  "slave_entries E =
     (\<lambda>(shard_id, ps). map (\<lambda>(idx, p). (slave_label shard_id idx, fst (check_pool E p)))
                          (enumerate 0 ps))"

definition health_entries :: "'db engine \<Rightarrow> 'db manager \<Rightarrow> (string \<times> bool) list" where
  "health_entries E mgr =
     map (master_entry E) (master_pools mgr) @ concat (map (slave_entries E) (slave_pools mgr))"

text \<open>The assignments \<open>health_status[k] = v\<close> for a list of entries, in order.\<close>

definition set_all :: "(string \<times> bool) list \<Rightarrow> (string \<times> bool) list \<Rightarrow> (string \<times> bool) list"
  where
  "set_all es hs = fold (\<lambda>(k, v). AList.update k v) es hs"

section \<open>Region resolution\<close>

lemma get_connection_unknown:
  "get_shard_id region = Inl e \<Longrightarrow> get_connection mgr region ro body = (Inl e, mgr)"
  by (simp add: get_connection_def)

lemma REGION_MAPPING_lookup:
  "(k, s) \<in> set REGION_MAPPING \<Longrightarrow> map_of REGION_MAPPING k = Some s \<and> s \<noteq> 0"
  unfolding REGION_MAPPING_def by (elim disjE conjE | simp)+

text \<open>
  Claim C4. Region resolution is case-insensitive and total on the configured regions: a
  region whose lowercasing is a key of \<open>REGION_MAPPING\<close> resolves to the shard of that key.
  For a region whose lowercasing is not a key, \<open>_get_shard_id\<close> raises the unknown-region
  error (\<open>ValueError\<close> with the message \<open>Unknown region: ...\<close>), and \<open>execute_query\<close>,
  \<open>execute_many\<close>, \<open>call_procedure\<close> and \<open>execute_transaction\<close> fail with that error and
  leave the manager, with all its pools, as it was.
\<close>

theorem shard_resolution:
  "((k, s) \<in> set REGION_MAPPING \<and> str_lower region = k \<longrightarrow> get_shard_id region = Inr s) \<and>
   (str_lower region \<notin> fst ` set REGION_MAPPING \<longrightarrow>
      get_shard_id region = Inl (ValueError (''Unknown region: '' @ region)) \<and>
      execute_query E mgr region query ps read_only fetch_one
        = (Inl (ValueError (''Unknown region: '' @ region)), mgr) \<and>
      execute_many E mgr region query params_list
        = (Inl (ValueError (''Unknown region: '' @ region)), mgr) \<and>
      call_procedure E mgr region name ps read_only
        = (Inl (ValueError (''Unknown region: '' @ region)), mgr) \<and>
      execute_transaction E mgr region queries
        = (Inl (ValueError (''Unknown region: '' @ region)), mgr))"
proof (intro conjI impI)
  assume "(k, s) \<in> set REGION_MAPPING \<and> str_lower region = k"
  then show "get_shard_id region = Inr s"
    using REGION_MAPPING_lookup [of k s] by (simp add: get_shard_id_def)
next
  assume "str_lower region \<notin> fst ` set REGION_MAPPING"
  then have "map_of REGION_MAPPING (str_lower region) = None"
    by (simp add: map_of_eq_None_iff)
  then have u: "get_shard_id region = Inl (ValueError (''Unknown region: '' @ region))"
    by (simp add: get_shard_id_def)
  show "get_shard_id region = Inl (ValueError (''Unknown region: '' @ region))"
    by (rule u)
  show "execute_query E mgr region query ps read_only fetch_one
        = (Inl (ValueError (''Unknown region: '' @ region)), mgr)"
    by (simp add: execute_query_def get_connection_unknown [OF u])
  show "execute_many E mgr region query params_list
        = (Inl (ValueError (''Unknown region: '' @ region)), mgr)"
    by (simp add: execute_many_def get_connection_unknown [OF u])
  show "call_procedure E mgr region name ps read_only
        = (Inl (ValueError (''Unknown region: '' @ region)), mgr)"
    by (simp add: call_procedure_def get_connection_unknown [OF u])
  show "execute_transaction E mgr region queries
        = (Inl (ValueError (''Unknown region: '' @ region)), mgr)"
    by (simp add: execute_transaction_def get_connection_unknown [OF u])
qed

lemma lower_AsIa: "str_lower ''AsIa'' = ''asia''"
  by code_simp

lemma asia_configured: "(''asia'', 3) \<in> set REGION_MAPPING \<and> str_lower ''AsIa'' = ''asia''"
  by (simp add: REGION_MAPPING_def lower_AsIa)

lemma lower_Mars: "str_lower ''Mars'' = ''mars''"
  by code_simp

lemma Mars_not_configured: "str_lower ''Mars'' \<notin> fst ` set REGION_MAPPING"
  by (simp add: REGION_MAPPING_def lower_Mars)

theorem shard_resolution_witness:
  "get_shard_id ''AsIa'' = Inr 3 \<and>
   get_shard_id ''Mars'' = Inl (ValueError ''Unknown region: Mars'') \<and>
   execute_transaction demo_engine demo_manager ''Mars'' [(''SELECT 1'', None)]
     = (Inl (ValueError ''Unknown region: Mars''), demo_manager)"
proof -
  have a: "get_shard_id ''AsIa'' = Inr 3"
    using shard_resolution [where k = "''asia''" and s = 3 and region = "''AsIa''", THEN conjunct1]
          asia_configured
    by simp
  have b: "get_shard_id ''Mars'' = Inl (ValueError ''Unknown region: Mars'') \<and>
           execute_transaction demo_engine demo_manager ''Mars'' [(''SELECT 1'', None)]
             = (Inl (ValueError ''Unknown region: Mars''), demo_manager)"
    using shard_resolution [where region = "''Mars''" and E = demo_engine and mgr = demo_manager
            and queries = "[(''SELECT 1'', None)]", THEN conjunct2]
          Mars_not_configured
    by simp
  from a b show ?thesis by simp
qed

section \<open>Routing\<close>

lemma first_slave_write [simp]: "first_slave mgr s False = None"
  by (simp add: first_slave_def)

lemma first_slave_master_update [simp]:
  "first_slave (mgr\<lparr>master_pools := ms\<rparr>) s ro = first_slave mgr s ro"
  by (simp add: first_slave_def)

lemma first_slave_slave_update:
  "first_slave (mgr\<lparr>slave_pools := AList.update s (p # rest) (slave_pools mgr)\<rparr>) s True
     = Some (p, rest)"
  by (simp add: first_slave_def update_conv')

lemma first_slave_Some_iff:
  "first_slave mgr s ro = Some (sp, rest) \<longleftrightarrow> ro \<and> map_of (slave_pools mgr) s = Some (sp # rest)"
  by (auto simp: first_slave_def split: option.splits list.splits)

lemma first_slave_None_iff:
  "first_slave mgr s ro = None \<longleftrightarrow>
     \<not> ro \<or> map_of (slave_pools mgr) s = None \<or> map_of (slave_pools mgr) s = Some []"
  by (auto simp: first_slave_def split: option.splits list.splits)

lemma get_connection_master:
  assumes "get_shard_id region = Inr s" and "first_slave mgr s ro = None"
    and "map_of (master_pools mgr) s = Some mp"
  shows "get_connection mgr region ro body =
     (case getconn mp of
        Inl e \<Rightarrow> (Inl e, mgr)
      | Inr (c, mp') \<Rightarrow>
          (case finish (body c) of
             (r, c2) \<Rightarrow>
               (r, mgr\<lparr>master_pools :=
                        AList.update s (putconn mp' c2) (master_pools mgr)\<rparr>)))"
  using assms
  by (simp add: get_connection_def acquire_def release_def update_conv'
           split: sum.splits prod.splits)

lemma get_connection_no_master:
  assumes "get_shard_id region = Inr s" and "first_slave mgr s ro = None"
    and "map_of (master_pools mgr) s = None"
  shows "get_connection mgr region ro body =
     (Inl (ValueError (''No master pool available for shard '' @ str_int s)), mgr)"
  using assms by (simp add: get_connection_def acquire_def)

lemma get_connection_slave:
  assumes "get_shard_id region = Inr s" and "first_slave mgr s ro = Some (sp, rest)"
  shows "get_connection mgr region ro body =
     (case getconn sp of
        Inl e \<Rightarrow> (Inl e, mgr)
      | Inr (c, sp') \<Rightarrow>
          (case finish (body c) of
             (r, c2) \<Rightarrow>
               (r, mgr\<lparr>slave_pools :=
                        AList.update s (putconn sp' c2 # rest) (slave_pools mgr)\<rparr>)))"
proof -
  from assms(2) have ro: ro by (simp add: first_slave_Some_iff)
  show ?thesis
    using assms ro
    by (simp add: get_connection_def acquire_def release_def first_slave_slave_update
             split: sum.splits prod.splits)
qed

lemma get_connection_write_slaves:
  "slave_pools (snd (get_connection mgr region False body)) = slave_pools mgr"
proof (cases "get_shard_id region")
  case (Inl e)
  then show ?thesis by (simp add: get_connection_def)
next
  case (Inr s)
  show ?thesis
  proof (cases "map_of (master_pools mgr) s")
    case None
    then show ?thesis using Inr by (simp add: get_connection_no_master)
  next
    case (Some mp)
    then show ?thesis using Inr
      by (simp add: get_connection_master split: sum.splits prod.splits)
  qed
qed

lemma get_connection_master_others:
  assumes "get_shard_id region = Inr s" and "first_slave mgr s ro = None" and "s' \<noteq> s"
  shows "map_of (master_pools (snd (get_connection mgr region ro body))) s'
           = map_of (master_pools mgr) s'"
proof (cases "map_of (master_pools mgr) s")
  case None
  then show ?thesis using assms by (simp add: get_connection_no_master)
next
  case (Some mp)
  then show ?thesis using assms
    by (simp add: get_connection_master update_conv' split: sum.splits prod.splits)
qed

lemma get_connection_master_slaves:
  assumes "get_shard_id region = Inr s" and "first_slave mgr s ro = None"
  shows "slave_pools (snd (get_connection mgr region ro body)) = slave_pools mgr"
proof (cases "map_of (master_pools mgr) s")
  case None
  then show ?thesis using assms by (simp add: get_connection_no_master)
next
  case (Some mp)
  then show ?thesis using assms
    by (simp add: get_connection_master split: sum.splits prod.splits)
qed

lemma get_connection_master_leased:
  assumes "get_shard_id region = Inr s" and "first_slave mgr s ro = None"
    and "map_of (master_pools mgr) s = Some mp" and "getconn mp = Inr (c, mp')"
  shows "fst (get_connection mgr region ro body) = fst (finish (body c)) \<and>
         map_of (master_pools (snd (get_connection mgr region ro body))) s
           = Some (putconn mp' (snd (finish (body c))))"
  using assms by (simp add: get_connection_master update_conv' split: prod.splits)

lemma get_connection_slave_leased:
  assumes "get_shard_id region = Inr s" and "first_slave mgr s ro = Some (sp, rest)"
    and "getconn sp = Inr (c, sp')"
  shows "fst (get_connection mgr region ro body) = fst (finish (body c)) \<and>
         map_of (slave_pools (snd (get_connection mgr region ro body))) s
           = Some (putconn sp' (snd (finish (body c))) # rest)"
  using assms by (simp add: get_connection_slave update_conv' split: prod.splits)

lemma get_connection_slave_frame:
  assumes "get_shard_id region = Inr s" and "first_slave mgr s ro = Some (sp, rest)"
  shows "master_pools (snd (get_connection mgr region ro body)) = master_pools mgr \<and>
         (\<forall>s'. s' \<noteq> s \<longrightarrow>
            map_of (slave_pools (snd (get_connection mgr region ro body))) s'
              = map_of (slave_pools mgr) s')"
  using assms by (simp add: get_connection_slave update_conv' split: sum.splits prod.splits)

lemma asia_shard: "get_shard_id ''asia'' = Inr 3"
  by code_simp

lemma rollback_open: "\<not> closed c \<Longrightarrow> rollback c = (Inr (), c\<lparr>pending := committed c\<rparr>)"
  by (simp add: rollback_def)

lemma rollback_closed: "closed c \<Longrightarrow> rollback c = (Inl InterfaceError, c)"
  by (simp add: rollback_def)

lemma commit_open: "\<not> closed c \<Longrightarrow> commit c = (Inr (), c\<lparr>committed := pending c\<rparr>)"
  by (simp add: commit_def)

lemma commit_closed: "closed c \<Longrightarrow> commit c = (Inl InterfaceError, c)"
  by (simp add: commit_def)

lemma rollback_and_raise_open:
  "\<not> closed c \<Longrightarrow> rollback_and_raise e c = (Inl e, c\<lparr>pending := committed c\<rparr>)"
  by (simp add: rollback_and_raise_def rollback_open)

lemma rollback_and_raise_closed:
  "closed c \<Longrightarrow> rollback_and_raise e c = (Inl InterfaceError, c)"
  by (simp add: rollback_and_raise_def rollback_closed)

lemma finish_open_return:
  "\<not> closed c \<Longrightarrow> finish (Inr v, c) = (Inr v, c\<lparr>committed := pending c\<rparr>)"
  by (simp add: finish_def commit_open)

lemma finish_open_raise:
  "\<not> closed c \<Longrightarrow> finish (Inl e, c) = (Inl e, c\<lparr>pending := committed c\<rparr>)"
  by (simp add: finish_def rollback_and_raise_open)

lemma finish_closed: "closed c \<Longrightarrow> finish (r, c) = (Inl InterfaceError, c)"
  by (cases r) (simp_all add: finish_def commit_closed rollback_and_raise_closed)

lemma get_connection_write:
  assumes "get_shard_id region = Inr s"
  shows "slave_pools (snd (get_connection mgr region False body)) = slave_pools mgr \<and>
     (\<forall>s'. s' \<noteq> s \<longrightarrow>
        map_of (master_pools (snd (get_connection mgr region False body))) s'
          = map_of (master_pools mgr) s') \<and>
     (map_of (master_pools mgr) s = None \<longrightarrow>
        get_connection mgr region False body
          = (Inl (ValueError (''No master pool available for shard '' @ str_int s)), mgr)) \<and>
     (\<forall>mp. map_of (master_pools mgr) s = Some mp \<longrightarrow>
        (\<forall>e. getconn mp = Inl e \<longrightarrow> get_connection mgr region False body = (Inl e, mgr)) \<and>
        (\<forall>c mp'. getconn mp = Inr (c, mp') \<longrightarrow>
           get_connection mgr region False body =
             (fst (finish (body c)),
              mgr\<lparr>master_pools :=
                    AList.update s (putconn mp' (snd (finish (body c)))) (master_pools mgr)\<rparr>)))"
proof -
  have w: "first_slave mgr s False = None"
    by (simp add: first_slave_def)
  show ?thesis
  proof (intro conjI allI impI)
    show "slave_pools (snd (get_connection mgr region False body)) = slave_pools mgr"
      by (rule get_connection_write_slaves)
    show "map_of (master_pools (snd (get_connection mgr region False body))) s'
            = map_of (master_pools mgr) s'" if "s' \<noteq> s" for s'
      using get_connection_master_others [OF assms w that] .
    show "get_connection mgr region False body
            = (Inl (ValueError (''No master pool available for shard '' @ str_int s)), mgr)"
      if "map_of (master_pools mgr) s = None"
      using get_connection_no_master [OF assms w that] .
    show "get_connection mgr region False body = (Inl e, mgr)"
      if "map_of (master_pools mgr) s = Some mp" and "getconn mp = Inl e" for mp e
      using that by (simp add: get_connection_master [OF assms w])
    show "get_connection mgr region False body =
             (fst (finish (body c)),
              mgr\<lparr>master_pools :=
                    AList.update s (putconn mp' (snd (finish (body c)))) (master_pools mgr)\<rparr>)"
      if "map_of (master_pools mgr) s = Some mp" and "getconn mp = Inr (c, mp')" for mp c mp'
      using that by (simp add: get_connection_master [OF assms w] split: prod.splits)
  qed
qed

text \<open>
  Claim C2. An operation with \<open>read_only = False\<close> on a region that resolves to shard
  \<open>s\<close> runs on the master pool of shard \<open>s\<close> and on no other pool. This holds for any
  body run under \<open>get_connection(region, False)\<close>, and so for every call of
  \<open>execute_transaction\<close> and of \<open>execute_many\<close>, and for \<open>execute_query\<close> and
  \<open>call_procedure\<close> called with \<open>read_only = False\<close>: each of them leaves
  \<open>_slave_pools\<close> and the master pools of the other shards as they were; fails without
  touching a pool when the shard has no master pool, or when that pool cannot lease; and
  otherwise takes its connection \<open>c\<close> from the master pool of the shard, returns or
  raises what its own body gives on \<open>c\<close>, and hands the connection back to that pool. In
  particular \<open>asia\<close> resolves to shard 3, and \<open>execute_transaction\<close> on \<open>asia\<close> runs on
  the connection leased from the master pool of shard 3, whatever slave pools are
  configured.
\<close>

theorem write_uses_master:
  "(get_shard_id region = Inr s \<longrightarrow>
      slave_pools (snd (get_connection mgr region False body)) = slave_pools mgr \<and>
      slave_pools (snd (execute_transaction E mgr region queries)) = slave_pools mgr \<and>
      slave_pools (snd (execute_many E mgr region query params_list)) = slave_pools mgr \<and>
      slave_pools (snd (execute_query E mgr region query ps False fetch_one)) = slave_pools mgr \<and>
      slave_pools (snd (call_procedure E mgr region name ps False)) = slave_pools mgr \<and>
      (\<forall>s'. s' \<noteq> s \<longrightarrow>
         map_of (master_pools (snd (get_connection mgr region False body))) s'
           = map_of (master_pools mgr) s' \<and>
         map_of (master_pools (snd (execute_transaction E mgr region queries))) s'
           = map_of (master_pools mgr) s' \<and>
         map_of (master_pools (snd (execute_many E mgr region query params_list))) s'
           = map_of (master_pools mgr) s' \<and>
         map_of (master_pools (snd (execute_query E mgr region query ps False fetch_one))) s'
           = map_of (master_pools mgr) s' \<and>
         map_of (master_pools (snd (call_procedure E mgr region name ps False))) s'
           = map_of (master_pools mgr) s') \<and>
      (map_of (master_pools mgr) s = None \<longrightarrow>
         get_connection mgr region False body
           = (Inl (ValueError (''No master pool available for shard '' @ str_int s)), mgr) \<and>
         execute_transaction E mgr region queries
           = (Inl (ValueError (''No master pool available for shard '' @ str_int s)), mgr) \<and>
         execute_many E mgr region query params_list
           = (Inl (ValueError (''No master pool available for shard '' @ str_int s)), mgr) \<and>
         execute_query E mgr region query ps False fetch_one
           = (Inl (ValueError (''No master pool available for shard '' @ str_int s)), mgr) \<and>
         call_procedure E mgr region name ps False
           = (Inl (ValueError (''No master pool available for shard '' @ str_int s)), mgr)) \<and>
      (\<forall>mp e. map_of (master_pools mgr) s = Some mp \<and> getconn mp = Inl e \<longrightarrow>
         get_connection mgr region False body = (Inl e, mgr) \<and>
         execute_transaction E mgr region queries = (Inl e, mgr) \<and>
         execute_many E mgr region query params_list = (Inl e, mgr) \<and>
         execute_query E mgr region query ps False fetch_one = (Inl e, mgr) \<and>
         call_procedure E mgr region name ps False = (Inl e, mgr)) \<and>
      (\<forall>mp c mp'. map_of (master_pools mgr) s = Some mp \<and> getconn mp = Inr (c, mp') \<longrightarrow>
         get_connection mgr region False body =
           (fst (finish (body c)),
            mgr\<lparr>master_pools :=
                  AList.update s (putconn mp' (snd (finish (body c)))) (master_pools mgr)\<rparr>) \<and>
         execute_transaction E mgr region queries =
           (fst (finish (execute_transaction_body E queries c)),
            mgr\<lparr>master_pools :=
                  AList.update s (putconn mp' (snd (finish (execute_transaction_body E queries c))))
                    (master_pools mgr)\<rparr>) \<and>
         execute_many E mgr region query params_list =
           (fst (finish (execute_many_body E query params_list c)),
            mgr\<lparr>master_pools :=
                  AList.update s
                    (putconn mp' (snd (finish (execute_many_body E query params_list c))))
                    (master_pools mgr)\<rparr>) \<and>
         execute_query E mgr region query ps False fetch_one =
           (fst (finish (execute_query_body E query ps fetch_one c)),
            mgr\<lparr>master_pools :=
                  AList.update s
                    (putconn mp' (snd (finish (execute_query_body E query ps fetch_one c))))
                    (master_pools mgr)\<rparr>) \<and>
         call_procedure E mgr region name ps False =
           (fst (finish (call_procedure_body E name ps c)),
            mgr\<lparr>master_pools :=
                  AList.update s (putconn mp' (snd (finish (call_procedure_body E name ps c))))
                    (master_pools mgr)\<rparr>))) \<and>
   get_shard_id ''asia'' = Inr 3 \<and>
   slave_pools (snd (execute_transaction E mgr ''asia'' queries)) = slave_pools mgr \<and>
   (\<forall>mp c mp'. map_of (master_pools mgr) 3 = Some mp \<and> getconn mp = Inr (c, mp') \<longrightarrow>
      execute_transaction E mgr ''asia'' queries =
        (fst (finish (execute_transaction_body E queries c)),
         mgr\<lparr>master_pools :=
               AList.update 3 (putconn mp' (snd (finish (execute_transaction_body E queries c))))
                 (master_pools mgr)\<rparr>))"
proof -
  note asia = get_connection_write [OF asia_shard, of mgr "execute_transaction_body E queries"]
  have general: ?thesis if s: "get_shard_id region = Inr s"
  proof -
    note b = get_connection_write [OF s, of mgr body]
    note t = get_connection_write [OF s, of mgr "execute_transaction_body E queries",
        folded execute_transaction_def]
    note m = get_connection_write [OF s, of mgr "execute_many_body E query params_list",
        folded execute_many_def]
    note q = get_connection_write [OF s, of mgr "execute_query_body E query ps fetch_one",
        folded execute_query_def]
    note p = get_connection_write [OF s, of mgr "call_procedure_body E name ps",
        folded call_procedure_def]
    show ?thesis
      using s b t m q p asia [folded execute_transaction_def] asia_shard
      by simp
  qed
  have other: ?thesis if "get_shard_id region \<noteq> Inr s"
    using that asia [folded execute_transaction_def] asia_shard by simp
  from general other show ?thesis by blast
qed

lemma demo_master_3: "map_of (master_pools demo_manager) 3 = Some (demo_pool 3 True [7])"
  by (simp add: demo_manager_def)

lemma demo_getconn: "getconn (demo_pool i up t) = Inr (demo_conn i up t, demo_leased i up t)"
  by (simp add: getconn_def demo_pool_def demo_leased_def demo_conn_def)

lemma demo_conn_open: "\<not> closed (demo_conn i up t)"
  by (simp add: demo_conn_def)

lemma demo_stmt_insert:
  "stmt demo_engine ''insert into t values (%s)'' (Some [PyInt n]) (True, t)
     = Inr ((True, t @ [n]), None)"
  by (simp add: demo_engine_def demo_stmt_def)

lemma demo_txn_body:
  "execute_transaction_body demo_engine [demo_insert 8, demo_insert 9] (demo_conn 3 True [7])
     = (Inr (), \<lparr>conn_id = 3, closed = False, committed = (True, [7, 8, 9]),
                 pending = (True, [7, 8, 9])\<rparr>)"
  by (simp add: execute_transaction_body_def conn_cursor_def demo_insert_def cursor_execute_def
        demo_conn_def demo_stmt_insert commit_def)

theorem write_uses_master_witness:
  "get_shard_id ''asia'' = Inr 3 \<and>
   map_of (master_pools demo_manager) 3 = Some (demo_pool 3 True [7]) \<and>
   getconn (demo_pool 3 True [7]) = Inr (demo_conn 3 True [7], demo_leased 3 True [7]) \<and>
   execute_transaction demo_engine demo_manager ''asia'' [demo_insert 8, demo_insert 9]
     = (Inr (),
        demo_manager\<lparr>master_pools :=
          AList.update 3
            ((demo_pool 3 True [7])
               \<lparr>idle := [\<lparr>conn_id = 3, closed = False, committed = (True, [7, 8, 9]),
                          pending = (True, [7, 8, 9])\<rparr>]\<rparr>)
            (master_pools demo_manager)\<rparr>) \<and>
   slave_pools (snd (execute_transaction demo_engine demo_manager ''asia''
                       [demo_insert 8, demo_insert 9]))
     = slave_pools demo_manager"
proof -
  let ?qs = "[demo_insert 8, demo_insert 9]"
  note inst = write_uses_master [where region = "''asia''" and s = 3 and mgr = demo_manager
      and E = demo_engine and queries = "?qs"]
  have a: "get_shard_id ''asia'' = Inr 3"
    using inst by blast
  have b: "slave_pools (snd (execute_transaction demo_engine demo_manager ''asia'' ?qs))
             = slave_pools demo_manager"
    using inst a by blast
  have c: "execute_transaction demo_engine demo_manager ''asia'' ?qs =
        (fst (finish (execute_transaction_body demo_engine ?qs (demo_conn 3 True [7]))),
         demo_manager\<lparr>master_pools :=
               AList.update 3
                 (putconn (demo_leased 3 True [7])
                    (snd (finish (execute_transaction_body demo_engine ?qs (demo_conn 3 True [7])))))
                 (master_pools demo_manager)\<rparr>)"
    using inst a demo_master_3 demo_getconn [of 3 True "[7]"] by blast
  show ?thesis
    using a b demo_master_3 demo_getconn [of 3 True "[7]"]
    by (simp add: c demo_txn_body finish_def commit_def putconn_def demo_leased_def demo_pool_def)
qed


lemma north_america_shard: "get_shard_id ''North_America'' = Inr 1"
  by code_simp

lemma europe_shard: "get_shard_id ''europe'' = Inr 2"
  by code_simp

lemma select_not_mutation: "\<not> is_mutation ''SELECT n FROM t''"
  by code_simp

lemma demo_stmt_select:
  "stmt demo_engine ''SELECT n FROM t'' ps (True, t)
     = Inr ((True, t), Some (map (\<lambda>n. [(''n'', PyInt n)]) t))"
  by (simp add: demo_engine_def demo_stmt_def)

lemma real_dict_row_single: "real_dict_row [(k, v)] = [(Column k, v)]"
  by (simp add: real_dict_row_def)

lemma demo_select_body:
  "execute_query_body demo_engine ''SELECT n FROM t'' None False (demo_conn i True t)
     = (Inr (RList (map (\<lambda>n. [(Column ''n'', PyInt n)]) t)), demo_conn i True t)"
  by (simp add: execute_query_body_def conn_cursor_def cursor_execute_def demo_conn_def
        demo_stmt_select select_not_mutation fetchall_def real_dict_row_single comp_def)

lemma demo_slave_1: "map_of (slave_pools demo_manager) 1 = Some [demo_pool 4 True [10]]"
  by (simp add: demo_manager_def)

lemma demo_slave_2: "map_of (slave_pools demo_manager) 2 = None"
  by (simp add: demo_manager_def)

lemma demo_master_2: "map_of (master_pools demo_manager) 2 = Some (demo_pool 2 True [])"
  by (simp add: demo_manager_def)


section \<open>Transactions\<close>

lemma run_queries_ok:
  "run_on_db E (pending c) qs = Inr db \<Longrightarrow> run_queries E c qs = (Inr (), c\<lparr>pending := db\<rparr>)"
proof (induction qs arbitrary: c)
  case Nil
  then show ?case by simp
next
  case (Cons a qs)
  obtain q ps where a: "a = (q, ps)" by (cases a)
  from Cons.prems a obtain db1 res where s: "stmt E q ps (pending c) = Inr (db1, res)"
    and r: "run_on_db E db1 qs = Inr db"
    by (auto split: sum.splits)
  from Cons.IH [of "c\<lparr>pending := db1\<rparr>"] r
  have "run_queries E (c\<lparr>pending := db1\<rparr>) qs = (Inr (), c\<lparr>pending := db\<rparr>)" by simp
  then show ?case using a s by (simp add: cursor_execute_def)
qed

lemma run_queries_fail:
  "run_on_db E (pending c) qs = Inl (e, lost) \<Longrightarrow>
   \<exists>x. run_queries E c qs = (Inl e, c\<lparr>pending := x, closed := lost\<rparr>)"
proof (induction qs arbitrary: c)
  case Nil
  then show ?case by simp
next
  case (Cons a qs)
  obtain q ps where a: "a = (q, ps)" by (cases a)
  show ?case
  proof (cases "stmt E q ps (pending c)")
    case (Inl f)
    with Cons.prems a have f: "f = (e, lost)" by simp
    show ?thesis
      by (rule exI [of _ "pending c"]) (simp add: a Inl f cursor_execute_def)
  next
    case (Inr r)
    obtain db1 res where r: "r = (db1, res)" by (cases r)
    from Cons.prems a Inr r have "run_on_db E db1 qs = Inl (e, lost)" by simp
    with Cons.IH [of "c\<lparr>pending := db1\<rparr>"]
    obtain x where
      x: "run_queries E (c\<lparr>pending := db1\<rparr>) qs = (Inl e, c\<lparr>pending := x, closed := lost\<rparr>)"
      by auto
    show ?thesis
      by (rule exI [of _ x]) (simp add: a Inr r cursor_execute_def x)
  qed
qed

lemma run_on_db_first_failure:
  "run_on_db E db pre = Inr db1 \<Longrightarrow> stmt E q ps db1 = Inl f \<Longrightarrow>
   run_on_db E db (pre @ (q, ps) # post) = Inl f"
proof (induction pre arbitrary: db)
  case Nil
  then show ?case by simp
next
  case (Cons a pre)
  obtain q' ps' where a: "a = (q', ps')" by (cases a)
  from Cons.prems(1) a obtain db2 res where s: "stmt E q' ps' db = Inr (db2, res)"
    and r: "run_on_db E db2 pre = Inr db1"
    by (auto split: sum.splits)
  from Cons.IH [OF r Cons.prems(2)] show ?case using a s by simp
qed

lemma txn_body_ok:
  "\<not> closed c \<Longrightarrow> run_on_db E (pending c) qs = Inr db \<Longrightarrow>
   execute_transaction_body E qs c = (Inr (), c\<lparr>pending := db, committed := db\<rparr>)"
  by (simp add: execute_transaction_body_def conn_cursor_def run_queries_ok commit_def)

lemma txn_body_fail_open:
  assumes "\<not> closed c" and "run_on_db E (pending c) qs = Inl (e, False)"
  shows "execute_transaction_body E qs c = (Inl e, c\<lparr>pending := committed c\<rparr>)"
proof -
  obtain x where x: "run_queries E c qs = (Inl e, c\<lparr>pending := x, closed := False\<rparr>)"
    using run_queries_fail [OF assms(2)] by blast
  show ?thesis
    using assms(1)
    by (simp add: execute_transaction_body_def conn_cursor_def x rollback_and_raise_def
          rollback_def)
qed

lemma txn_body_fail_lost:
  assumes "\<not> closed c" and "run_on_db E (pending c) qs = Inl (e, True)"
  shows "\<exists>x. execute_transaction_body E qs c = (Inl InterfaceError, c\<lparr>pending := x, closed := True\<rparr>)"
proof -
  obtain x where x: "run_queries E c qs = (Inl e, c\<lparr>pending := x, closed := True\<rparr>)"
    using run_queries_fail [OF assms(2)] by blast
  show ?thesis
    using assms(1)
    by (intro exI [of _ x])
       (simp add: execute_transaction_body_def conn_cursor_def x rollback_and_raise_def
          rollback_def)
qed

lemma putconn_closed: "closed x \<Longrightarrow> putconn p x = p\<lparr>used := remove1 (conn_id x) (used p)\<rparr>"
  by (simp add: putconn_def)

lemma putconn_open:
  "\<not> closed x \<Longrightarrow> length (idle p) < minconn p \<Longrightarrow>
   putconn p x = p\<lparr>idle := x\<lparr>pending := committed x\<rparr> # idle p,
                   used := remove1 (conn_id x) (used p)\<rparr>"
  by (simp add: putconn_def)

lemma putconn_getconn:
  assumes "getconn p = Inr (c, p')" and "idle p \<noteq> []" and "length (idle p) \<le> minconn p"
    and "\<not> closed c" and "pending c = committed c"
  shows "putconn p' c = p"
proof -
  from assms(2) obtain c0 cs where i: "idle p = c0 # cs" by (cases "idle p") auto
  with assms(1) have c: "c = c0" and p': "p' = p\<lparr>idle := cs, used := conn_id c # used p\<rparr>"
    by (auto simp: getconn_def)
  from assms(3) i have "length cs < minconn p" by simp
  then show ?thesis
    using assms(4,5) i c by (simp add: p' putconn_def)
qed



lemma demo_stmt_bad: "stmt demo_engine ''BAD'' None (True, t) = Inl (ProgrammingError, False)"
  by (simp add: demo_engine_def demo_stmt_def)

lemma demo_stmt_kill:
  "stmt demo_engine ''SELECT pg_terminate_backend(pg_backend_pid())'' ps (True, t)
     = Inl (OperationalError, True)"
  by (simp add: demo_engine_def demo_stmt_def)

lemma demo_run_on_db_1: "run_on_db demo_engine (True, [7]) [demo_insert 8] = Inr (True, [7, 8])"
  by (simp add: demo_insert_def demo_stmt_insert)

lemma demo_run_on_db_2:
  "run_on_db demo_engine (True, [7]) [demo_insert 8, demo_insert 9] = Inr (True, [7, 8, 9])"
  by (simp add: demo_insert_def demo_stmt_insert)


section \<open>The end of a lease\<close>

lemma cursor_execute_lost:
  "stmt E query ps (pending c) = Inl (e, lost) \<Longrightarrow>
   cursor_execute E c query ps = (Inl e, c\<lparr>closed := lost\<rparr>)"
  by (simp add: cursor_execute_def)

lemma cursor_executemany_run:
  "cursor_executemany E c query params_list
     = run_queries E c (map (\<lambda>ps. (query, Some ps)) params_list)"
  by (induction params_list arbitrary: c) (simp_all split: prod.splits sum.splits)

lemma finish_closed_snd:
  "closed (snd outcome) \<Longrightarrow> finish outcome = (Inl InterfaceError, snd outcome)"
  by (cases outcome) (simp add: finish_closed)

lemma finish_open_snd:
  "\<not> closed (snd outcome) \<Longrightarrow>
   finish outcome =
     (fst outcome,
      case fst outcome of
        Inl e \<Rightarrow> (snd outcome)\<lparr>pending := committed (snd outcome)\<rparr>
      | Inr v \<Rightarrow> (snd outcome)\<lparr>committed := pending (snd outcome)\<rparr>)"
  by (cases outcome; cases "fst outcome") (simp_all add: finish_open_return finish_open_raise)

lemma getconn_opens:
  "idle q = [] \<Longrightarrow> length (used q) \<noteq> maxconn q \<Longrightarrow>
   getconn q =
     (case connect q (opened q) of
        Inl e \<Rightarrow> Inl e
      | Inr c' \<Rightarrow> Inr (c', q\<lparr>used := conn_id c' # used q, opened := Suc (opened q)\<rparr>))"
  by (simp add: getconn_def)


lemma demo_first_slave_1:
  "first_slave demo_manager 1 True = Some (demo_pool 4 True [10], [])"
  by (simp add: first_slave_def demo_slave_1)

lemma demo_kill_body:
  "execute_query_body demo_engine ''SELECT pg_terminate_backend(pg_backend_pid())'' None False
       (demo_conn 4 True [10])
     = (Inl OperationalError, (demo_conn 4 True [10])\<lparr>closed := True\<rparr>)"
  by (simp add: execute_query_body_def conn_cursor_def cursor_execute_def demo_conn_def
        demo_stmt_kill)

lemma demo_conn_id: "conn_id (demo_conn i up t) = i"
  by (simp add: demo_conn_def)


section \<open>Results of execute_query\<close>

lemma get_connection_acquired:
  assumes "get_shard_id region = Inr s" and "acquire mgr s ro = (Inr c, mgr1)"
  shows "get_connection mgr region ro body =
           (fst (finish (body c)), release mgr1 s ro (snd (finish (body c))))"
  using assms by (simp add: get_connection_def split: prod.splits)

lemma fold_update_nonempty:
  "al \<noteq> [] \<Longrightarrow> fold (\<lambda>(name, v). AList.update (Column name) v) cols al \<noteq> []"
  by (induction cols arbitrary: al) (simp_all split: prod.splits)

lemma real_dict_row_nonempty: "real_dict_row cols \<noteq> []"
proof (cases cols)
  case Nil
  then show ?thesis by (simp add: real_dict_row_def)
next
  case (Cons x xs)
  obtain name v where x: "x = (name, v)" by (cases x)
  have "fold (\<lambda>(name, v). AList.update (Column name) v) xs (AList.update (Column name) v []) \<noteq> []"
    by (rule fold_update_nonempty) simp
  then show ?thesis
    by (simp add: real_dict_row_def Cons x)
qed

lemma fold_update_distinct:
  "distinct (map fst cols) \<Longrightarrow> Column ` fst ` set cols \<inter> fst ` set al = {} \<Longrightarrow>
   fold (\<lambda>(name, v). AList.update (Column name) v) cols al
     = al @ map (\<lambda>(name, v). (Column name, v)) cols"
proof (induction cols arbitrary: al)
  case Nil
  then show ?case by simp
next
  case (Cons x xs)
  obtain name v where x: "x = (name, v)" by (cases x)
  from Cons.prems(2) have fresh: "Column name \<notin> fst ` set al"
    by (auto simp: x)
  then have u: "AList.update (Column name) v al = al @ [(Column name, v)]"
    by (induction al) auto
  have d: "distinct (map fst xs)" and n: "name \<notin> fst ` set xs"
    using Cons.prems(1) by (auto simp: x)
  have "Column ` fst ` set xs \<inter> fst ` set (al @ [(Column name, v)]) = {}"
    using Cons.prems(2) n by (auto simp: x)
  from Cons.IH [OF d this] show ?case
    by (simp add: x u)
qed

lemma real_dict_row_distinct:
  "cols \<noteq> [] \<Longrightarrow> distinct (map fst cols) \<Longrightarrow>
   real_dict_row cols = map (\<lambda>(name, v). (Column name, v)) cols"
  using fold_update_distinct [of cols "[]"] by (simp add: real_dict_row_def)

lemma query_body_mutation:
  assumes "\<not> closed c" and "stmt E query ps (pending c) = Inr (db, res)" and "is_mutation query"
  shows "finish (execute_query_body E query ps fetch_one c)
           = (Inr RNone, c\<lparr>pending := db, committed := db\<rparr>)"
  using assms
  by (simp add: execute_query_body_def conn_cursor_def cursor_execute_def commit_def finish_def)

lemma query_body_fetchall:
  assumes "\<not> closed c" and "stmt E query ps (pending c) = Inr (db, Some rows)"
    and "\<not> is_mutation query"
  shows "finish (execute_query_body E query ps False c)
           = (Inr (RList (map real_dict_row rows)), c\<lparr>pending := db, committed := db\<rparr>)"
  using assms
  by (simp add: execute_query_body_def conn_cursor_def cursor_execute_def commit_def finish_def
        fetchall_def)

lemma query_body_fetchone_none:
  assumes "\<not> closed c" and "stmt E query ps (pending c) = Inr (db, Some [])"
    and "\<not> is_mutation query"
  shows "finish (execute_query_body E query ps True c)
           = (Inr RNone, c\<lparr>pending := db, committed := db\<rparr>)"
  using assms
  by (simp add: execute_query_body_def conn_cursor_def cursor_execute_def commit_def finish_def
        fetchone_def)

lemma query_body_fetchone_row:
  assumes "\<not> closed c" and "stmt E query ps (pending c) = Inr (db, Some (r # rest))"
    and "\<not> is_mutation query"
  shows "finish (execute_query_body E query ps True c)
           = (Inr (RDict (real_dict_row r)), c\<lparr>pending := db, committed := db\<rparr>)"
  using assms
  by (simp add: execute_query_body_def conn_cursor_def cursor_execute_def commit_def finish_def
        fetchone_def real_dict_row_nonempty)

lemma query_body_no_result_set:
  assumes "\<not> closed c" and "stmt E query ps (pending c) = Inr (db, None)"
    and "\<not> is_mutation query"
  shows "finish (execute_query_body E query ps fetch_one c)
           = (Inl ProgrammingError, c\<lparr>pending := committed c\<rparr>)"
  using assms
  by (cases fetch_one)
     (simp_all add: execute_query_body_def conn_cursor_def cursor_execute_def finish_def
        fetchone_def fetchall_def rollback_and_raise_def rollback_def)

lemma create_not_mutation: "\<not> is_mutation ''CREATE TABLE u ()''"
  by code_simp

lemma demo_stmt_create:
  "stmt demo_engine ''CREATE TABLE u ()'' None (True, t) = Inr ((True, t), None)"
  by (simp add: demo_engine_def demo_stmt_def)

lemma demo_acquire_master:
  "map_of (master_pools demo_manager) s = Some (demo_pool i up t) \<Longrightarrow>
   acquire demo_manager s False =
     (Inr (demo_conn i up t),
      demo_manager\<lparr>master_pools :=
        AList.update s (demo_leased i up t) (master_pools demo_manager)\<rparr>)"
  by (simp add: acquire_def demo_getconn)

lemma demo_pool_putconn: "putconn (demo_leased i up t) (demo_conn i up t) = demo_pool i up t"
  by (simp add: putconn_def demo_leased_def demo_conn_def demo_pool_def)

lemma demo_release_master:
  "map_of (master_pools demo_manager) s = Some (demo_pool i up t) \<Longrightarrow>
   release (demo_manager\<lparr>master_pools :=
              AList.update s (demo_leased i up t) (master_pools demo_manager)\<rparr>)
      s False (demo_conn i up t)
     = demo_manager"
  by (simp add: release_def update_conv' demo_pool_putconn update_triv)

lemma demo_conn_rolled_back:
  "(demo_conn i up t)\<lparr>pending := committed (demo_conn i up t)\<rparr> = demo_conn i up t"
  by (simp add: demo_conn_def)

text \<open>
  Claim C9 says that every statement that does not begin with \<open>INSERT\<close>, \<open>UPDATE\<close> or
  \<open>DELETE\<close> returns its first row or the list of its rows. A statement that yields no
  result set does not: \<open>CREATE TABLE u ()\<close> succeeds on the node, \<open>fetchall\<close> then raises
  \<open>ProgrammingError\<close>, and \<open>execute_query\<close> raises it after rolling the statement back.
\<close>

theorem statement_without_result_set_raises:
  "\<not> is_mutation ''CREATE TABLE u ()'' \<and>
   stmt demo_engine ''CREATE TABLE u ()'' None (True, [7]) = Inr ((True, [7]), None) \<and>
   execute_query demo_engine demo_manager ''asia'' ''CREATE TABLE u ()'' None False False
     = (Inl ProgrammingError, demo_manager)"
proof -
  have "stmt demo_engine ''CREATE TABLE u ()'' None (pending (demo_conn 3 True [7]))
          = Inr ((True, [7]), None)"
    by (simp add: demo_conn_def demo_stmt_create)
  from query_body_no_result_set [OF demo_conn_open this create_not_mutation]
  have "execute_query demo_engine demo_manager ''asia'' ''CREATE TABLE u ()'' None False False
     = (Inl ProgrammingError, demo_manager)"
    by (simp add: execute_query_def
          get_connection_acquired [OF asia_shard demo_acquire_master [OF demo_master_3]]
          demo_conn_rolled_back demo_release_master [OF demo_master_3])
  then show ?thesis
    by (simp add: create_not_mutation demo_stmt_create)
qed

text \<open>
  Claim C9, amended. Let the connection be leased, its session open, and the statement
  succeed on it. If the text of the statement, stripped of surrounding whitespace and
  upper-cased, begins with \<open>INSERT\<close>, \<open>UPDATE\<close> or \<open>DELETE\<close>, \<open>execute_query\<close> returns
  \<open>None\<close> and the connection goes back with the statement committed. Otherwise, if the
  statement yields a result set, \<open>execute_query\<close> returns the list of all its rows when
  \<open>fetch_one\<close> is false, and when \<open>fetch_one\<close> is true \<open>None\<close> for no rows and the first
  row otherwise, each row as the dict the cursor builds for it, and the connection goes
  back committed; if the statement yields no result set, \<open>execute_query\<close> raises
  \<open>ProgrammingError\<close> and the connection goes back rolled back.
\<close>

theorem execute_query_result:
  assumes "get_shard_id region = Inr s"
    and "acquire mgr s read_only = (Inr c, mgr1)"
    and "\<not> closed c"
    and "stmt E query ps (pending c) = Inr (db, res)"
  shows
    "(is_mutation query \<longrightarrow>
        execute_query E mgr region query ps read_only fetch_one =
          (Inr RNone, release mgr1 s read_only (c\<lparr>pending := db, committed := db\<rparr>))) \<and>
     (\<not> is_mutation query \<longrightarrow>
        (\<forall>rows. res = Some rows \<longrightarrow>
           (\<not> fetch_one \<longrightarrow>
              execute_query E mgr region query ps read_only fetch_one =
                (Inr (RList (map real_dict_row rows)),
                 release mgr1 s read_only (c\<lparr>pending := db, committed := db\<rparr>))) \<and>
           (fetch_one \<and> rows = [] \<longrightarrow>
              execute_query E mgr region query ps read_only fetch_one =
                (Inr RNone, release mgr1 s read_only (c\<lparr>pending := db, committed := db\<rparr>))) \<and>
           (\<forall>r rest. fetch_one \<and> rows = r # rest \<longrightarrow>
              execute_query E mgr region query ps read_only fetch_one =
                (Inr (RDict (real_dict_row r)),
                 release mgr1 s read_only (c\<lparr>pending := db, committed := db\<rparr>)))) \<and>
        (res = None \<longrightarrow>
           execute_query E mgr region query ps read_only fetch_one =
             (Inl ProgrammingError,
              release mgr1 s read_only (c\<lparr>pending := committed c\<rparr>))))"
proof -
  note gc = get_connection_acquired [OF assms(1) assms(2)]
  show ?thesis
  proof (intro conjI allI impI)
    assume "is_mutation query"
    from query_body_mutation [OF assms(3) assms(4) this]
    show "execute_query E mgr region query ps read_only fetch_one =
          (Inr RNone, release mgr1 s read_only (c\<lparr>pending := db, committed := db\<rparr>))"
      by (simp add: execute_query_def gc)
  next
    fix rows
    assume n: "\<not> is_mutation query" and r: "res = Some rows"
    note st = assms(4) [unfolded r]
    show "execute_query E mgr region query ps read_only fetch_one =
                (Inr (RList (map real_dict_row rows)),
                 release mgr1 s read_only (c\<lparr>pending := db, committed := db\<rparr>))"
      if "\<not> fetch_one"
      using that query_body_fetchall [OF assms(3) st n]
      by (simp add: execute_query_def gc)
    show "execute_query E mgr region query ps read_only fetch_one =
                (Inr RNone, release mgr1 s read_only (c\<lparr>pending := db, committed := db\<rparr>))"
      if h: "fetch_one \<and> rows = []"
    proof -
      from st h have "stmt E query ps (pending c) = Inr (db, Some [])" by simp
      from query_body_fetchone_none [OF assms(3) this n] h show ?thesis
        by (simp add: execute_query_def gc)
    qed
    show "execute_query E mgr region query ps read_only fetch_one =
                (Inr (RDict (real_dict_row r')),
                 release mgr1 s read_only (c\<lparr>pending := db, committed := db\<rparr>))"
      if h: "fetch_one \<and> rows = r' # rest" for r' rest
    proof -
      from st h have "stmt E query ps (pending c) = Inr (db, Some (r' # rest))" by simp
      from query_body_fetchone_row [OF assms(3) this n] h show ?thesis
        by (simp add: execute_query_def gc)
    qed
  next
    assume n: "\<not> is_mutation query" and r: "res = None"
    note st = assms(4) [unfolded r]
    from query_body_no_result_set [OF assms(3) st n]
    show "execute_query E mgr region query ps read_only fetch_one =
             (Inl ProgrammingError,
              release mgr1 s read_only (c\<lparr>pending := committed c\<rparr>))"
      by (simp add: execute_query_def gc)
  qed
qed

lemma insert_is_mutation: "is_mutation ''insert into t values (%s)''"
  by code_simp

lemma demo_acquire_slave_1:
  "acquire demo_manager 1 True =
     (Inr (demo_conn 4 True [10]),
      demo_manager\<lparr>slave_pools :=
        AList.update 1 [demo_leased 4 True [10]] (slave_pools demo_manager)\<rparr>)"
  by (simp add: acquire_def first_slave_def demo_slave_1 demo_getconn)

lemma demo_release_slave_1:
  "release (demo_manager\<lparr>slave_pools :=
              AList.update 1 [demo_leased 4 True [10]] (slave_pools demo_manager)\<rparr>)
      1 True ((demo_conn 4 True [10])\<lparr>pending := (True, [10]), committed := (True, [10])\<rparr>)
     = demo_manager"
proof -
  have "(demo_conn 4 True [10])\<lparr>pending := (True, [10]), committed := (True, [10])\<rparr>
          = demo_conn 4 True [10]"
    by (simp add: demo_conn_def)
  then show ?thesis
    by (simp add: release_def first_slave_def update_conv' demo_slave_1 demo_pool_putconn
          update_triv)
qed

theorem execute_query_result_witness:
  "get_shard_id ''North_America'' = Inr 1 \<and>
   acquire demo_manager 1 True =
     (Inr (demo_conn 4 True [10]),
      demo_manager\<lparr>slave_pools :=
        AList.update 1 [demo_leased 4 True [10]] (slave_pools demo_manager)\<rparr>) \<and>
   \<not> closed (demo_conn 4 True [10]) \<and>
   stmt demo_engine ''SELECT n FROM t'' None (pending (demo_conn 4 True [10]))
     = Inr ((True, [10]), Some [[(''n'', PyInt 10)]]) \<and>
   \<not> is_mutation ''SELECT n FROM t'' \<and>
   execute_query demo_engine demo_manager ''North_America'' ''SELECT n FROM t'' None True True
     = (Inr (RDict [(Column ''n'', PyInt 10)]), demo_manager) \<and>
   execute_query demo_engine demo_manager ''North_America'' ''SELECT n FROM t'' None True False
     = (Inr (RList [[(Column ''n'', PyInt 10)]]), demo_manager) \<and>
   get_shard_id ''asia'' = Inr 3 \<and>
   \<not> closed (demo_conn 3 True [7]) \<and>
   stmt demo_engine ''insert into t values (%s)'' (Some [PyInt 8]) (pending (demo_conn 3 True [7]))
     = Inr ((True, [7, 8]), None) \<and>
   is_mutation ''insert into t values (%s)'' \<and>
   fst (execute_query demo_engine demo_manager ''asia'' ''insert into t values (%s)''
          (Some [PyInt 8]) False False)
     = Inr RNone \<and>
   stmt demo_engine ''CREATE TABLE u ()'' None (pending (demo_conn 3 True [7]))
     = Inr ((True, [7]), None) \<and>
   \<not> is_mutation ''CREATE TABLE u ()'' \<and>
   execute_query demo_engine demo_manager ''asia'' ''CREATE TABLE u ()'' None False True
     = (Inl ProgrammingError, demo_manager)"
proof -
  have s1: "stmt demo_engine ''SELECT n FROM t'' None (pending (demo_conn 4 True [10]))
              = Inr ((True, [10]), Some [[(''n'', PyInt 10)]])"
    by (simp add: demo_conn_def demo_stmt_select)
  have s3: "stmt demo_engine ''insert into t values (%s)'' (Some [PyInt 8])
              (pending (demo_conn 3 True [7])) = Inr ((True, [7, 8]), None)"
    by (simp add: demo_conn_def demo_stmt_insert)
  have s4: "stmt demo_engine ''CREATE TABLE u ()'' None (pending (demo_conn 3 True [7]))
              = Inr ((True, [7]), None)"
    by (simp add: demo_conn_def demo_stmt_create)
  note o4 = demo_conn_open [of 4 True "[10]"]
  note o3 = demo_conn_open [of 3 True "[7]"]
  note rd1 = execute_query_result [where fetch_one = True,
      OF north_america_shard demo_acquire_slave_1 o4 s1, THEN conjunct2]
  note rd2 = execute_query_result [where fetch_one = False,
      OF north_america_shard demo_acquire_slave_1 o4 s1, THEN conjunct2]
  note wr = execute_query_result [where fetch_one = False,
      OF asia_shard demo_acquire_master [OF demo_master_3] o3 s3, THEN conjunct1]
  note ddl = execute_query_result [where fetch_one = True,
      OF asia_shard demo_acquire_master [OF demo_master_3] o3 s4, THEN conjunct2]
  have "execute_query demo_engine demo_manager ''North_America'' ''SELECT n FROM t'' None True True
          = (Inr (RDict (real_dict_row [(''n'', PyInt 10)])),
             release (demo_manager\<lparr>slave_pools :=
                 AList.update 1 [demo_leased 4 True [10]] (slave_pools demo_manager)\<rparr>) 1 True
               ((demo_conn 4 True [10])\<lparr>pending := (True, [10]), committed := (True, [10])\<rparr>))"
    using rd1 select_not_mutation by blast
  then have a: "execute_query demo_engine demo_manager ''North_America'' ''SELECT n FROM t''
                  None True True = (Inr (RDict [(Column ''n'', PyInt 10)]), demo_manager)"
    by (simp add: real_dict_row_single demo_release_slave_1)
  have "execute_query demo_engine demo_manager ''North_America'' ''SELECT n FROM t'' None True False
          = (Inr (RList (map real_dict_row [[(''n'', PyInt 10)]])),
             release (demo_manager\<lparr>slave_pools :=
                 AList.update 1 [demo_leased 4 True [10]] (slave_pools demo_manager)\<rparr>) 1 True
               ((demo_conn 4 True [10])\<lparr>pending := (True, [10]), committed := (True, [10])\<rparr>))"
    using rd2 select_not_mutation by blast
  then have b: "execute_query demo_engine demo_manager ''North_America'' ''SELECT n FROM t''
                  None True False = (Inr (RList [[(Column ''n'', PyInt 10)]]), demo_manager)"
    by (simp add: real_dict_row_single demo_release_slave_1)
  have c: "fst (execute_query demo_engine demo_manager ''asia'' ''insert into t values (%s)''
                  (Some [PyInt 8]) False False) = Inr RNone"
    using wr insert_is_mutation by simp
  have "execute_query demo_engine demo_manager ''asia'' ''CREATE TABLE u ()'' None False True
          = (Inl ProgrammingError,
             release (demo_manager\<lparr>master_pools :=
                 AList.update 3 (demo_leased 3 True [7]) (master_pools demo_manager)\<rparr>) 3 False
               ((demo_conn 3 True [7])\<lparr>pending := committed (demo_conn 3 True [7])\<rparr>))"
    using ddl create_not_mutation by blast
  then have d: "execute_query demo_engine demo_manager ''asia'' ''CREATE TABLE u ()'' None
                  False True = (Inl ProgrammingError, demo_manager)"
    by (simp add: demo_conn_rolled_back demo_release_master [OF demo_master_3])
  show ?thesis
    using a b c d s1 s3 s4 o3 o4 north_america_shard asia_shard demo_acquire_slave_1
      select_not_mutation insert_is_mutation create_not_mutation
    by simp
qed

lemma select_from_not_mutation: "\<not> is_mutation ''SELECT FROM t''"
  by code_simp

lemma demo_stmt_select_from:
  "stmt demo_engine ''SELECT FROM t'' ps (True, t) = Inr ((True, t), Some (map (\<lambda>n. []) t))"
  by (simp add: demo_engine_def demo_stmt_def)

lemma demo_master_1: "map_of (master_pools demo_manager) 1 = Some (demo_pool 1 True [10])"
  by (simp add: demo_manager_def)

text \<open>
  Claim C10. Let the connection be leased, its session open, and let a statement that does
  not begin with \<open>INSERT\<close>, \<open>UPDATE\<close> or \<open>DELETE\<close> yield a result set. With \<open>fetch_one\<close>,
  \<open>execute_query\<close> returns \<open>None\<close> when the result set has no rows, and otherwise the
  first row as the dict the cursor builds for it; the call does not raise, and the
  connection goes back committed. That dict is never empty, so the test \<open>if result\<close> of
  the source passes for every row; for a row with columns of distinct names it is the
  dict of the row's columns, in their order.
\<close>

theorem fetch_one_result:
  assumes "get_shard_id region = Inr s"
    and "acquire mgr s read_only = (Inr c, mgr1)"
    and "\<not> closed c"
    and "\<not> is_mutation query"
    and "stmt E query ps (pending c) = Inr (db, Some rows)"
  shows
    "(rows = [] \<longrightarrow>
        execute_query E mgr region query ps read_only True =
          (Inr RNone, release mgr1 s read_only (c\<lparr>pending := db, committed := db\<rparr>))) \<and>
     (\<forall>r rest. rows = r # rest \<longrightarrow>
        execute_query E mgr region query ps read_only True =
          (Inr (RDict (real_dict_row r)),
           release mgr1 s read_only (c\<lparr>pending := db, committed := db\<rparr>)) \<and>
        real_dict_row r \<noteq> [] \<and>
        (r \<noteq> [] \<and> distinct (map fst r) \<longrightarrow>
           real_dict_row r = map (\<lambda>(name, v). (Column name, v)) r))"
proof (intro conjI allI impI)
  note gc = get_connection_acquired [OF assms(1) assms(2)]
  show "execute_query E mgr region query ps read_only True =
          (Inr RNone, release mgr1 s read_only (c\<lparr>pending := db, committed := db\<rparr>))"
    if h: "rows = []"
    using query_body_fetchone_none [OF assms(3) assms(5) [unfolded h] assms(4)]
    by (simp add: execute_query_def gc)
  show "execute_query E mgr region query ps read_only True =
          (Inr (RDict (real_dict_row r)),
           release mgr1 s read_only (c\<lparr>pending := db, committed := db\<rparr>))"
    if h: "rows = r # rest" for r rest
    using query_body_fetchone_row [OF assms(3) assms(5) [unfolded h] assms(4)]
    by (simp add: execute_query_def gc)
  show "real_dict_row r \<noteq> []" for r
    by (rule real_dict_row_nonempty)
  show "real_dict_row r = map (\<lambda>(name, v). (Column name, v)) r"
    if "r \<noteq> [] \<and> distinct (map fst r)" for r
    using that by (simp add: real_dict_row_distinct)
qed

theorem fetch_one_result_witness:
  "get_shard_id ''North_America'' = Inr 1 \<and>
   acquire demo_manager 1 True =
     (Inr (demo_conn 4 True [10]),
      demo_manager\<lparr>slave_pools :=
        AList.update 1 [demo_leased 4 True [10]] (slave_pools demo_manager)\<rparr>) \<and>
   \<not> closed (demo_conn 4 True [10]) \<and>
   \<not> is_mutation ''SELECT n FROM t'' \<and>
   stmt demo_engine ''SELECT n FROM t'' None (pending (demo_conn 4 True [10]))
     = Inr ((True, [10]), Some [[(''n'', PyInt 10)]]) \<and>
   [(''n'', PyInt 10)] \<noteq> [] \<and> distinct (map fst [(''n'', PyInt 10)]) \<and>
   execute_query demo_engine demo_manager ''North_America'' ''SELECT n FROM t'' None True True
     = (Inr (RDict [(Column ''n'', PyInt 10)]), demo_manager) \<and>
   \<not> is_mutation ''SELECT FROM t'' \<and>
   stmt demo_engine ''SELECT FROM t'' None (pending (demo_conn 4 True [10]))
     = Inr ((True, [10]), Some [[]]) \<and>
   execute_query demo_engine demo_manager ''North_America'' ''SELECT FROM t'' None True True
     = (Inr (RDict [(RealDictRowClass, PyList [])]), demo_manager) \<and>
   get_shard_id ''europe'' = Inr 2 \<and>
   acquire demo_manager 2 False =
     (Inr (demo_conn 2 True []),
      demo_manager\<lparr>master_pools :=
        AList.update 2 (demo_leased 2 True []) (master_pools demo_manager)\<rparr>) \<and>
   \<not> closed (demo_conn 2 True []) \<and>
   stmt demo_engine ''SELECT n FROM t'' None (pending (demo_conn 2 True []))
     = Inr ((True, []), Some []) \<and>
   execute_query demo_engine demo_manager ''europe'' ''SELECT n FROM t'' None False True
     = (Inr RNone, demo_manager)"
proof -
  have s1: "stmt demo_engine ''SELECT n FROM t'' None (pending (demo_conn 4 True [10]))
              = Inr ((True, [10]), Some [[(''n'', PyInt 10)]])"
    by (simp add: demo_conn_def demo_stmt_select)
  have s2: "stmt demo_engine ''SELECT FROM t'' None (pending (demo_conn 4 True [10]))
              = Inr ((True, [10]), Some [[]])"
    by (simp add: demo_conn_def demo_stmt_select_from)
  have s3: "stmt demo_engine ''SELECT n FROM t'' None (pending (demo_conn 2 True []))
              = Inr ((True, []), Some [])"
    by (simp add: demo_conn_def demo_stmt_select)
  note o4 = demo_conn_open [of 4 True "[10]"]
  note o2 = demo_conn_open [of 2 True "[]"]
  note one = fetch_one_result [OF north_america_shard demo_acquire_slave_1 o4
      select_not_mutation s1, THEN conjunct2]
  note bare = fetch_one_result [OF north_america_shard demo_acquire_slave_1 o4
      select_from_not_mutation s2, THEN conjunct2]
  note zero = fetch_one_result [OF europe_shard demo_acquire_master [OF demo_master_2] o2
      select_not_mutation s3, THEN conjunct1]
  have d: "[(''n'', PyInt 10)] \<noteq> [] \<and> distinct (map fst [(''n'', PyInt 10)])"
    by simp
  have "execute_query demo_engine demo_manager ''North_America'' ''SELECT n FROM t'' None True True
          = (Inr (RDict (real_dict_row [(''n'', PyInt 10)])),
             release (demo_manager\<lparr>slave_pools :=
                 AList.update 1 [demo_leased 4 True [10]] (slave_pools demo_manager)\<rparr>) 1 True
               ((demo_conn 4 True [10])\<lparr>pending := (True, [10]), committed := (True, [10])\<rparr>)) \<and>
        real_dict_row [(''n'', PyInt 10)]
          = map (\<lambda>(name, v). (Column name, v)) [(''n'', PyInt 10)]"
    using one d by blast
  then have a: "execute_query demo_engine demo_manager ''North_America'' ''SELECT n FROM t''
                  None True True = (Inr (RDict [(Column ''n'', PyInt 10)]), demo_manager)"
    by (simp add: demo_release_slave_1)
  have "execute_query demo_engine demo_manager ''North_America'' ''SELECT FROM t'' None True True
          = (Inr (RDict (real_dict_row [])),
             release (demo_manager\<lparr>slave_pools :=
                 AList.update 1 [demo_leased 4 True [10]] (slave_pools demo_manager)\<rparr>) 1 True
               ((demo_conn 4 True [10])\<lparr>pending := (True, [10]), committed := (True, [10])\<rparr>))"
    using bare by blast
  then have b: "execute_query demo_engine demo_manager ''North_America'' ''SELECT FROM t''
                  None True True = (Inr (RDict [(RealDictRowClass, PyList [])]), demo_manager)"
    by (simp add: real_dict_row_def demo_release_slave_1)
  have "execute_query demo_engine demo_manager ''europe'' ''SELECT n FROM t'' None False True
          = (Inr RNone,
             release (demo_manager\<lparr>master_pools :=
                 AList.update 2 (demo_leased 2 True []) (master_pools demo_manager)\<rparr>) 2 False
               ((demo_conn 2 True [])\<lparr>pending := (True, []), committed := (True, [])\<rparr>))"
    using zero by blast
  moreover have "(demo_conn 2 True [])\<lparr>pending := (True, []), committed := (True, [])\<rparr>
                   = demo_conn 2 True []"
    by (simp add: demo_conn_def)
  ultimately have c: "execute_query demo_engine demo_manager ''europe'' ''SELECT n FROM t''
                        None False True = (Inr RNone, demo_manager)"
    by (simp add: demo_release_master [OF demo_master_2])
  show ?thesis
    using a b c d s1 s2 s3 o2 o4 north_america_shard europe_shard demo_acquire_slave_1
      demo_acquire_master [OF demo_master_2] select_not_mutation select_from_not_mutation
    by simp
qed

section \<open>Health checks\<close>

lemma demo_stmt_down: "stmt demo_engine query ps (False, t) = Inl (OperationalError, True)"
  by (simp add: demo_engine_def demo_stmt_def)

text \<open>
  Claim C8 says that the probe of a node releases its connection on every path. The code
  at a pool whose node does not answer: the connection is leased, \<open>SELECT 1\<close> raises, the
  entry is \<open>False\<close>, and the pool is left with the connection still leased and nothing
  waiting: \<open>putconn\<close> was not called.
\<close>

theorem failed_probe_leaks_connection:
  "getconn (demo_pool 5 False [7]) = Inr (demo_conn 5 False [7], demo_leased 5 False [7]) \<and>
   cursor_execute demo_engine (demo_conn 5 False [7]) ''SELECT 1'' None
     = (Inl OperationalError, (demo_conn 5 False [7])\<lparr>closed := True\<rparr>) \<and>
   check_pool demo_engine (demo_pool 5 False [7]) = (False, demo_leased 5 False [7]) \<and>
   idle (demo_leased 5 False [7]) = [] \<and> used (demo_leased 5 False [7]) = [5]"
  by (simp add: check_pool_def demo_getconn conn_cursor_def cursor_execute_def demo_conn_def
        demo_stmt_down demo_leased_def)

subsection \<open>Labels\<close>

lemma of_char_digit: "d < 10 \<Longrightarrow> (of_char (digit_char d) :: nat) = 48 + d"
  by (simp add: digit_char_def)

lemma digit_char_inj: "d < 10 \<Longrightarrow> d' < 10 \<Longrightarrow> digit_char d = digit_char d' \<Longrightarrow> d = d'"
proof -
  assume d: "d < 10" and d': "d' < 10" and e: "digit_char d = digit_char d'"
  have "(of_char (digit_char d) :: nat) = of_char (digit_char d')" by (simp only: e)
  then have "48 + d = 48 + d'" by (simp only: of_char_digit [OF d] of_char_digit [OF d'])
  then show ?thesis by simp
qed

lemma digit_char_not_underscore: "d < 10 \<Longrightarrow> digit_char d \<noteq> CHR ''_''"
proof
  assume d: "d < 10" and e: "digit_char d = CHR ''_''"
  have "(of_char (digit_char d) :: nat) = of_char (CHR ''_'')" by (simp only: e)
  with of_char_digit [OF d] have "48 + d = (95 :: nat)" by simp
  with d show False by simp
qed

lemma digit_char_not_minus: "d < 10 \<Longrightarrow> digit_char d \<noteq> CHR ''-''"
proof
  assume d: "d < 10" and e: "digit_char d = CHR ''-''"
  have "(of_char (digit_char d) :: nat) = of_char (CHR ''-'')" by (simp only: e)
  with of_char_digit [OF d] have "48 + d = (45 :: nat)" by simp
  then show False by simp
qed

lemma str_nat_nonempty: "str_nat n \<noteq> []"
  by (subst str_nat.simps) simp

lemma str_nat_digits: "c \<in> set (str_nat n) \<Longrightarrow> \<exists>d<10. c = digit_char d"
proof (induction n rule: str_nat.induct)
  case (1 n)
  show ?case
  proof (cases "n < 10")
    case True
    with "1.prems" show ?thesis by (subst (asm) str_nat.simps) auto
  next
    case False
    with "1.prems" have "c \<in> set (str_nat (n div 10)) \<or> c = digit_char (n mod 10)"
      by (subst (asm) str_nat.simps) auto
    then show ?thesis
    proof
      assume "c \<in> set (str_nat (n div 10))"
      with "1.IH" False show ?thesis by simp
    next
      assume "c = digit_char (n mod 10)"
      moreover have "n mod 10 < 10" by simp
      ultimately show ?thesis by blast
    qed
  qed
qed

lemma str_nat_inj: "str_nat n = str_nat m \<Longrightarrow> n = m"
proof (induction n arbitrary: m rule: str_nat.induct)
  case (1 n)
  show ?case
  proof (cases "n < 10")
    case n: True
    show ?thesis
    proof (cases "m < 10")
      case True
      with n "1.prems" have "digit_char n = digit_char m"
        by (simp add: str_nat.simps [of n] str_nat.simps [of m])
      with n True show ?thesis by (rule digit_char_inj)
    next
      case False
      with n "1.prems" have "[digit_char n] = str_nat (m div 10) @ [digit_char (m mod 10)]"
        by (simp add: str_nat.simps [of n] str_nat.simps [of m])
      then have "str_nat (m div 10) = []" by simp
      with str_nat_nonempty show ?thesis by blast
    qed
  next
    case n: False
    show ?thesis
    proof (cases "m < 10")
      case True
      with n "1.prems" have "str_nat (n div 10) @ [digit_char (n mod 10)] = [digit_char m]"
        by (simp add: str_nat.simps [of n] str_nat.simps [of m])
      then have "str_nat (n div 10) = []" by simp
      with str_nat_nonempty show ?thesis by blast
    next
      case False
      with n "1.prems"
      have "str_nat (n div 10) @ [digit_char (n mod 10)]
              = str_nat (m div 10) @ [digit_char (m mod 10)]"
        by (simp add: str_nat.simps [of n] str_nat.simps [of m])
      then have a: "str_nat (n div 10) = str_nat (m div 10)"
        and b: "digit_char (n mod 10) = digit_char (m mod 10)"
        by simp_all
      from "1.IH" [OF n a] have q: "n div 10 = m div 10" .
      have "n mod 10 < 10" "m mod 10 < 10" by simp_all
      then have r: "n mod 10 = m mod 10" using b by (rule digit_char_inj)
      have "n = 10 * (n div 10) + n mod 10" by simp
      also have "\<dots> = 10 * (m div 10) + m mod 10" by (simp only: q r)
      also have "\<dots> = m" by simp
      finally show ?thesis .
    qed
  qed
qed

lemma str_nat_no_underscore: "CHR ''_'' \<notin> set (str_nat n)"
proof
  assume "CHR ''_'' \<in> set (str_nat n)"
  then obtain d where "d < 10" and "CHR ''_'' = digit_char d"
    using str_nat_digits [of "CHR ''_''" n] by auto
  then show False using digit_char_not_underscore [of d] by simp
qed

lemma str_nat_no_minus: "CHR ''-'' \<notin> set (str_nat n)"
proof
  assume "CHR ''-'' \<in> set (str_nat n)"
  then obtain d where "d < 10" and "CHR ''-'' = digit_char d"
    using str_nat_digits [of "CHR ''-''" n] by auto
  then show False using digit_char_not_minus [of d] by simp
qed

lemma str_int_no_underscore: "CHR ''_'' \<notin> set (str_int i)"
  by (simp add: str_int_def str_nat_no_underscore)

lemma str_int_inj: "str_int i = str_int j \<Longrightarrow> i = j"
proof -
  assume e: "str_int i = str_int j"
  have hd_nat: "hd (str_nat n) \<noteq> CHR ''-''" for n
    using str_nat_no_minus [of n] str_nat_nonempty [of n] by (cases "str_nat n") auto
  show ?thesis
  proof (cases "i < 0")
    case i: True
    show ?thesis
    proof (cases "j < 0")
      case True
      with i e have "str_nat (nat (- i)) = str_nat (nat (- j))" by (simp add: str_int_def)
      then have "nat (- i) = nat (- j)" by (rule str_nat_inj)
      with i True show ?thesis by simp
    next
      case False
      with i e have "CHR ''-'' # str_nat (nat (- i)) = str_nat (nat j)" by (simp add: str_int_def)
      then have "hd (str_nat (nat j)) = CHR ''-''" by (metis list.sel(1))
      with hd_nat show ?thesis by blast
    qed
  next
    case i: False
    show ?thesis
    proof (cases "j < 0")
      case True
      with i e have "str_nat (nat i) = CHR ''-'' # str_nat (nat (- j))" by (simp add: str_int_def)
      then have "hd (str_nat (nat i)) = CHR ''-''" by simp
      with hd_nat show ?thesis by blast
    next
      case False
      with i e have "str_nat (nat i) = str_nat (nat j)" by (simp add: str_int_def)
      then have "nat i = nat j" by (rule str_nat_inj)
      with i False show ?thesis by simp
    qed
  qed
qed

lemma master_label_inj: "master_label a = master_label b \<Longrightarrow> a = b"
  using str_int_inj [of a b] by (simp add: master_label_def)

lemma slave_label_inj: "slave_label a i = slave_label b j \<Longrightarrow> a = b \<and> i = j"
proof -
  assume "slave_label a i = slave_label b j"
  then have "str_int a @ CHR ''_'' # str_nat i = str_int b @ CHR ''_'' # str_nat j"
    by (simp add: slave_label_def)
  then have "str_int a = str_int b \<and> str_nat i = str_nat j"
    using append_Cons_eq_iff [of "CHR ''_''" "str_int a" "str_nat i" "str_int b" "str_nat j"]
      str_int_no_underscore [of a] str_nat_no_underscore [of i]
    by simp
  then show ?thesis using str_int_inj [of a b] str_nat_inj [of i j] by blast
qed

lemma master_slave_label: "master_label a \<noteq> slave_label b j"
  by (simp add: master_label_def slave_label_def)

subsection \<open>The entries of health_check\<close>

lemma update_fresh: "k \<notin> fst ` set al \<Longrightarrow> AList.update k v al = al @ [(k, v)]"
  by (induction al) auto

lemma set_all_fresh:
  "distinct (map fst es) \<Longrightarrow> fst ` set es \<inter> fst ` set hs = {} \<Longrightarrow> set_all es hs = hs @ es"
proof (induction es arbitrary: hs)
  case Nil
  then show ?case by (simp add: set_all_def)
next
  case (Cons e es)
  obtain k v where e: "e = (k, v)" by (cases e)
  from Cons.prems e have k: "k \<notin> fst ` set hs" by auto
  from Cons.prems e have d: "distinct (map fst es)" by simp
  from Cons.prems e have "fst ` set es \<inter> fst ` set (hs @ [(k, v)]) = {}" by auto
  from Cons.IH [OF d this] have "set_all es (hs @ [(k, v)]) = hs @ [(k, v)] @ es" by simp
  then show ?case using e k by (simp add: set_all_def update_fresh)
qed

lemma set_all_append: "set_all (xs @ ys) hs = set_all ys (set_all xs hs)"
  by (simp add: set_all_def)

lemma check_masters_entries:
  "snd (check_masters E ms hs) = set_all (map (master_entry E) ms) hs"
proof (induction ms arbitrary: hs)
  case Nil
  then show ?case by (simp add: set_all_def)
next
  case (Cons m ms)
  obtain sid p where m: "m = (sid, p)" by (cases m)
  obtain ok p' where cp: "check_pool E p = (ok, p')" by (cases "check_pool E p")
  obtain r h where cm: "check_masters E ms (AList.update (master_label sid) ok hs) = (r, h)"
    by (cases "check_masters E ms (AList.update (master_label sid) ok hs)")
  from Cons.IH [of "AList.update (master_label sid) ok hs"] cm
  have "h = set_all (map (master_entry E) ms) (AList.update (master_label sid) ok hs)" by simp
  then show ?case
    by (simp add: m cp cm set_all_def master_entry_def)
qed

lemma check_slave_list_entries:
  "snd (check_slave_list E sid idx ps hs) =
     set_all (map (\<lambda>(i, p). (slave_label sid i, fst (check_pool E p))) (enumerate idx ps)) hs"
proof (induction ps arbitrary: idx hs)
  case Nil
  then show ?case by (simp add: set_all_def)
next
  case (Cons p ps)
  obtain ok p' where cp: "check_pool E p = (ok, p')" by (cases "check_pool E p")
  obtain r h where
    cs: "check_slave_list E sid (Suc idx) ps (AList.update (slave_label sid idx) ok hs) = (r, h)"
    by (cases "check_slave_list E sid (Suc idx) ps (AList.update (slave_label sid idx) ok hs)")
  from Cons.IH [of "Suc idx" "AList.update (slave_label sid idx) ok hs"] cs
  have "h = set_all (map (\<lambda>(i, p). (slave_label sid i, fst (check_pool E p)))
                       (enumerate (Suc idx) ps))
              (AList.update (slave_label sid idx) ok hs)" by simp
  then show ?case
    by (simp add: cp cs set_all_def)
qed

lemma check_slaves_entries:
  "snd (check_slaves E ss hs) = set_all (concat (map (slave_entries E) ss)) hs"
proof (induction ss arbitrary: hs)
  case Nil
  then show ?case by (simp add: set_all_def)
next
  case (Cons s ss)
  obtain sid ps where s: "s = (sid, ps)" by (cases s)
  have "snd (check_slaves E (s # ss) hs)
          = snd (check_slaves E ss (snd (check_slave_list E sid 0 ps hs)))"
    by (simp add: s split: prod.splits)
  also have "\<dots> = set_all (concat (map (slave_entries E) ss))
                      (set_all (slave_entries E (sid, ps)) hs)"
    by (simp add: Cons.IH check_slave_list_entries slave_entries_def)
  finally show ?case by (simp add: s set_all_append)
qed

lemma health_check_set_all: "fst (health_check E mgr) = set_all (health_entries E mgr) []"
proof -
  have "fst (health_check E mgr)
          = snd (check_slaves E (slave_pools mgr) (snd (check_masters E (master_pools mgr) [])))"
    by (simp add: health_check_def split: prod.splits)
  then show ?thesis
    by (simp add: check_slaves_entries check_masters_entries health_entries_def set_all_append)
qed

lemma master_entry_keys: "map fst (map (master_entry E) ms) = map master_label (map fst ms)"
  by (simp add: master_entry_def split_def)

lemma slave_entries_keys:
  "map fst (slave_entries E (sid, ps)) = map (slave_label sid) [0..<length ps]"
proof -
  have "map fst (slave_entries E (sid, ps))
          = map (\<lambda>x. slave_label sid (fst x)) (enumerate 0 ps)"
    by (simp add: slave_entries_def split_def comp_def)
  also have "\<dots> = map (slave_label sid) (map fst (enumerate 0 ps))"
    by (simp only: map_map comp_def)
  also have "\<dots> = map (slave_label sid) [0..<length ps]"
    by simp
  finally show ?thesis .
qed

lemma slave_keys_shape:
  "k \<in> fst ` set (concat (map (slave_entries E) ss)) \<Longrightarrow>
   \<exists>sid ps i. (sid, ps) \<in> set ss \<and> i < length ps \<and> k = slave_label sid i"
proof -
  assume "k \<in> fst ` set (concat (map (slave_entries E) ss))"
  then obtain s where s: "s \<in> set ss" and k: "k \<in> fst ` set (slave_entries E s)"
    by auto
  obtain sid ps where sp: "s = (sid, ps)" by (cases s)
  from k sp have "k \<in> set (map (slave_label sid) [0..<length ps])"
    using slave_entries_keys [of E sid ps] by (metis set_map)
  then obtain i where "i < length ps" and "k = slave_label sid i" by auto
  with s sp show ?thesis by blast
qed

lemma distinct_master_keys:
  "distinct (map fst ms) \<Longrightarrow> distinct (map fst (map (master_entry E) ms))"
  unfolding master_entry_keys
  by (rule iffD2 [OF distinct_map]) (auto simp: inj_on_def dest: master_label_inj)

lemma distinct_slave_entry_keys: "distinct (map fst (slave_entries E (sid, ps)))"
  unfolding slave_entries_keys
  by (rule iffD2 [OF distinct_map]) (auto simp: inj_on_def dest: slave_label_inj)

lemma distinct_slave_keys:
  "distinct (map fst ss) \<Longrightarrow> distinct (map fst (concat (map (slave_entries E) ss)))"
proof (induction ss)
  case Nil
  then show ?case by simp
next
  case (Cons s ss)
  obtain sid ps where s: "s = (sid, ps)" by (cases s)
  from Cons.prems s have fresh: "sid \<notin> fst ` set ss" and d: "distinct (map fst ss)" by auto
  have disj: "fst ` set (slave_entries E (sid, ps))
                \<inter> fst ` set (concat (map (slave_entries E) ss)) = {}"
  proof (rule ccontr)
    assume "fst ` set (slave_entries E (sid, ps))
              \<inter> fst ` set (concat (map (slave_entries E) ss)) \<noteq> {}"
    then obtain k where k1: "k \<in> fst ` set (slave_entries E (sid, ps))"
      and k2: "k \<in> fst ` set (concat (map (slave_entries E) ss))"
      by blast
    from k1 have "k \<in> set (map (slave_label sid) [0..<length ps])"
      using slave_entries_keys [of E sid ps] by (metis set_map)
    then obtain i where i: "k = slave_label sid i" by auto
    from slave_keys_shape [OF k2] obtain sid' ps' j where
      m: "(sid', ps') \<in> set ss" and j: "k = slave_label sid' j" by blast
    from i j have "sid = sid'" using slave_label_inj [of sid i sid' j] by simp
    with m fresh show False by force
  qed
  have "map fst (concat (map (slave_entries E) (s # ss)))
          = map fst (slave_entries E (sid, ps)) @ map fst (concat (map (slave_entries E) ss))"
    by (simp add: s)
  then show ?case
    using distinct_slave_entry_keys [of E sid ps] Cons.IH [OF d] disj
    by (simp only: distinct_append set_map)
qed

lemma distinct_health_keys:
  assumes "distinct (map fst (master_pools mgr))" and "distinct (map fst (slave_pools mgr))"
  shows "distinct (map fst (health_entries E mgr))"
proof -
  have disj: "fst ` set (map (master_entry E) (master_pools mgr))
                \<inter> fst ` set (concat (map (slave_entries E) (slave_pools mgr))) = {}"
  proof (rule ccontr)
    assume "fst ` set (map (master_entry E) (master_pools mgr))
              \<inter> fst ` set (concat (map (slave_entries E) (slave_pools mgr))) \<noteq> {}"
    then obtain k where k1: "k \<in> fst ` set (map (master_entry E) (master_pools mgr))"
      and k2: "k \<in> fst ` set (concat (map (slave_entries E) (slave_pools mgr)))"
      by blast
    from k1 obtain sid where "k = master_label sid"
      by (auto simp: master_entry_def)
    moreover from slave_keys_shape [OF k2] obtain sid' j where "k = slave_label sid' j"
      by blast
    ultimately show False using master_slave_label [of sid sid' j] by simp
  qed
  have "map fst (health_entries E mgr)
          = map fst (map (master_entry E) (master_pools mgr))
            @ map fst (concat (map (slave_entries E) (slave_pools mgr)))"
    by (simp add: health_entries_def)
  then show ?thesis
    using distinct_master_keys [OF assms(1), of E] distinct_slave_keys [OF assms(2), of E] disj
    by (simp only: distinct_append set_map)
qed

lemma health_check_entries:
  assumes "distinct (map fst (master_pools mgr))" and "distinct (map fst (slave_pools mgr))"
  shows "fst (health_check E mgr) = health_entries E mgr"
  using set_all_fresh [OF distinct_health_keys [OF assms, of E], of "[]"]
  by (simp add: health_check_set_all)

lemma all_true_count: "length (filter snd hs) = length hs \<longleftrightarrow> (\<forall>e\<in>set hs. snd e)"
proof (induction hs)
  case Nil
  then show ?case by simp
next
  case (Cons h hs)
  have le: "length (filter snd hs) \<le> length hs" by simp
  show ?case
  proof (cases "snd h")
    case True
    with Cons show ?thesis by simp
  next
    case False
    from le have "length (filter snd hs) \<noteq> Suc (length hs)" by arith
    with False show ?thesis by simp
  qed
qed

lemma length_health_entries:
  "length (health_entries E mgr)
     = length (master_pools mgr) + sum_list (map (length \<circ> snd) (slave_pools mgr))"
proof -
  have l: "length (slave_entries E s) = length (snd s)" for s
    by (cases s) (simp add: slave_entries_def)
  have "length \<circ> slave_entries E = length \<circ> snd"
    by (rule ext) (simp add: l)
  then show ?thesis
    by (simp add: health_entries_def length_concat)
qed

lemma master_entry_member:
  "(sid, p) \<in> set (master_pools mgr) \<Longrightarrow>
   (master_label sid, fst (check_pool E p)) \<in> set (health_entries E mgr)"
  by (force simp: health_entries_def master_entry_def)

lemma slave_entry_member:
  assumes "(sid, ps) \<in> set (slave_pools mgr)" and "idx < length ps"
  shows "(slave_label sid idx, fst (check_pool E (ps ! idx))) \<in> set (health_entries E mgr)"
proof -
  from assms(2) have "(idx, ps ! idx) \<in> set (enumerate 0 ps)"
    by (simp add: in_set_enumerate_eq)
  then have "(slave_label sid idx, fst (check_pool E (ps ! idx))) \<in> set (slave_entries E (sid, ps))"
    by (force simp: slave_entries_def)
  with assms(1) show ?thesis
    by (force simp: health_entries_def)
qed

text \<open>
  Claim C7. For a manager whose two dicts have distinct keys, \<open>health_check\<close> returns
  exactly the expected entries: one entry for every master pool and one for every slave
  pool, under pairwise different labels, so that their number is the number of pools. The
  entry of a pool is the outcome of the probe of that pool, whatever the other probes
  give: a probe that fails yields \<open>False\<close> for its own entry, and no entry is skipped or
  changed by it. The report of \<open>check_postgres_health\<close> carries these entries, and its
  \<open>all_healthy\<close> is true exactly when every entry is true.
\<close>

theorem health_check_complete:
  assumes "distinct (map fst (master_pools mgr))" and "distinct (map fst (slave_pools mgr))"
  shows
    "fst (health_check E mgr) = health_entries E mgr \<and>
     distinct (map fst (fst (health_check E mgr))) \<and>
     length (fst (health_check E mgr))
       = length (master_pools mgr) + sum_list (map (length \<circ> snd) (slave_pools mgr)) \<and>
     (\<forall>(shard_id, p) \<in> set (master_pools mgr).
        map_of (fst (health_check E mgr)) (master_label shard_id) = Some (fst (check_pool E p))) \<and>
     (\<forall>(shard_id, ps) \<in> set (slave_pools mgr). \<forall>idx < length ps.
        map_of (fst (health_check E mgr)) (slave_label shard_id idx)
          = Some (fst (check_pool E (ps ! idx)))) \<and>
     details (fst (check_postgres_health E mgr)) = fst (health_check E mgr) \<and>
     (all_healthy (fst (check_postgres_health E mgr)) \<longleftrightarrow>
        (\<forall>e \<in> set (fst (health_check E mgr)). snd e))"
proof -
  note eq = health_check_entries [OF assms, of E]
  note dist = distinct_health_keys [OF assms, of E]
  have m: "map_of (health_entries E mgr) (master_label sid) = Some (fst (check_pool E p))"
    if "(sid, p) \<in> set (master_pools mgr)" for sid p
    using map_of_is_SomeI [OF dist master_entry_member [OF that]] .
  have s: "map_of (health_entries E mgr) (slave_label sid idx)
             = Some (fst (check_pool E (ps ! idx)))"
    if "(sid, ps) \<in> set (slave_pools mgr)" and "idx < length ps" for sid ps idx
    using map_of_is_SomeI [OF dist slave_entry_member [OF that]] .
  have d: "details (fst (check_postgres_health E mgr)) = fst (health_check E mgr)"
    by (simp add: check_postgres_health_def Let_def split: prod.splits)
  have a: "all_healthy (fst (check_postgres_health E mgr)) \<longleftrightarrow>
             (\<forall>e \<in> set (fst (health_check E mgr)). snd e)"
  proof (cases "health_check E mgr")
    case (Pair hs mgr')
    then show ?thesis
      using all_true_count [of hs] by (simp add: check_postgres_health_def Let_def)
  qed
  show ?thesis
    using eq dist m s d a by (auto simp: length_health_entries)
qed

lemma demo_stmt_select_1:
  "stmt demo_engine ''SELECT 1'' None (True, t) = Inr ((True, t), Some [[(''?column?'', PyInt 1)]])"
  by (simp add: demo_engine_def demo_stmt_def)

lemma demo_check_pool_up: "check_pool demo_engine (demo_pool i True t) = (True, demo_pool i True t)"
proof -
  have "cursor_execute demo_engine (demo_conn i True t) ''SELECT 1'' None
          = (Inr (Some [[(''?column?'', PyInt 1)]]), demo_conn i True t)"
    by (simp add: cursor_execute_def demo_conn_def demo_stmt_select_1)
  then show ?thesis
    by (simp add: check_pool_def demo_getconn conn_cursor_def demo_conn_open demo_pool_putconn)
qed

lemma demo_check_pool_down: "fst (check_pool demo_engine (demo_pool i False t)) = False"
  by (simp add: check_pool_def demo_getconn conn_cursor_def cursor_execute_def demo_conn_def
        demo_stmt_down)

lemma demo_labels:
  "master_label 1 = ''master_shard_1''" "master_label 2 = ''master_shard_2''"
  "master_label 3 = ''master_shard_3''" "slave_label 1 0 = ''slave_shard_1_0''"
  "slave_label 3 0 = ''slave_shard_3_0''" "slave_label 3 (Suc 0) = ''slave_shard_3_1''"
  by code_simp+

lemma demo_health_entries:
  "health_entries demo_engine demo_manager =
     [(''master_shard_1'', True), (''master_shard_2'', True), (''master_shard_3'', True),
      (''slave_shard_1_0'', True), (''slave_shard_3_0'', False), (''slave_shard_3_1'', True)]"
  by (simp add: health_entries_def demo_manager_def master_entry_def slave_entries_def
        enumerate_eq_zip upt_rec demo_check_pool_up demo_check_pool_down demo_labels)

theorem health_check_complete_witness:
  "distinct (map fst (master_pools demo_manager)) \<and>
   distinct (map fst (slave_pools demo_manager)) \<and>
   fst (health_check demo_engine demo_manager) =
     [(''master_shard_1'', True), (''master_shard_2'', True), (''master_shard_3'', True),
      (''slave_shard_1_0'', True), (''slave_shard_3_0'', False), (''slave_shard_3_1'', True)] \<and>
   \<not> all_healthy (fst (check_postgres_health demo_engine demo_manager))"
proof -
  have d1: "distinct (map fst (master_pools demo_manager))"
    by (simp add: demo_manager_def)
  have d2: "distinct (map fst (slave_pools demo_manager))"
    by (simp add: demo_manager_def)
  note inst = health_check_complete [OF d1 d2, of demo_engine]
  have a: "fst (health_check demo_engine demo_manager) = health_entries demo_engine demo_manager"
    using inst by blast
  have b: "all_healthy (fst (check_postgres_health demo_engine demo_manager)) \<longleftrightarrow>
             (\<forall>e \<in> set (fst (health_check demo_engine demo_manager)). snd e)"
    using inst by blast
  show ?thesis
    using d1 d2 a b by (simp add: demo_health_entries)
qed

end
